theory Spec2Isabelle
  imports Complex_Main "HOL-Library.Sublist" "HOL-Library.Finite_Map"
begin

section \<open>Errors\<close>

text \<open>
  Every Python exception that the modelled code can raise is a value of \<open>error\<close>;
  a function that may raise returns \<open>error + 'a\<close>, with \<open>Inl\<close> the exception.
  \<open>CollaboratorFailure\<close> stands for any exception raised inside an external
  collaborator (model fitting, sampling, trial generation, remote execution).
\<close>

datatype error = KeyError | IndexError | TypeError | ValueError | OverflowError
  | AttributeError | JSONDecodeError | CollaboratorFailure

section \<open>Tables\<close>

text \<open>
  A pandas table is the list of its rows, a row a record of its columns. A condition
  row has the two independent variables; an observation row adds the dependent one.
\<close>

record condition =
  dots_left :: int
  dots_right :: int

record observation = condition +
  accuracy :: real

section \<open>JSON values\<close>

text \<open>
  A Python string is the list of its code points; \<open>py_str\<close> gives the string of an
  ASCII literal.
\<close>

type_synonym pystr = "nat list"

definition py_str :: "string \<Rightarrow> pystr" where
  "py_str s = map of_char s"

text \<open>
  What \<open>json.loads\<close> returns: \<open>None\<close>, a bool, an int, a float (finite and given by
  its exact value, an infinity with its sign, or NaN), a string, a list, or a
  dictionary with strings as keys.
\<close>

datatype json = JNull | JBool bool | JInt int | JFloat real | JInf bool | JNaN
  | JStr pystr | JArr "json list" | JObj "(pystr, json) fmap"

text \<open>
  Python \<open>==\<close> on such values. Numbers are compared by their exact value, whatever
  their type, and \<open>True\<close> and \<open>False\<close> are the numbers 1 and 0; lists and
  dictionaries are compared entry by entry. \<open>norm\<close> maps equal entries to one value.
  NaN is unequal to everything, itself included; inside a list or dictionary the one
  NaN object of the JSON decoder is found identical to itself before \<open>==\<close> is tried.
\<close>

primrec norm :: "json \<Rightarrow> json" where
  "norm JNull = JNull"
| "norm (JBool b) = JInt (if b then 1 else 0)"
| "norm (JInt i) = JInt i"
| "norm (JFloat r) = (if of_int \<lfloor>r\<rfloor> = r then JInt \<lfloor>r\<rfloor> else JFloat r)"
| "norm (JInf positive) = JInf positive"
| "norm JNaN = JNaN"
| "norm (JStr s) = JStr s"
| "norm (JArr xs) = JArr (map norm xs)"
| "norm (JObj m) = JObj (fmmap norm m)"

definition py_eq :: "json \<Rightarrow> json \<Rightarrow> bool" where
  "py_eq a b = (a \<noteq> JNaN \<and> b \<noteq> JNaN \<and> norm a = norm b)"

text \<open>
  Python \<open>int(x)\<close>: the identity on an int, 0 or 1 on a bool, truncation towards zero
  on a finite float, OverflowError on an infinity, ValueError on NaN, TypeError on
  \<open>None\<close>, a list or a dictionary. On a string it is the built-in reading of an
  integer literal, which is taken as given: \<open>to_int s\<close> is the integer read from
  \<open>s\<close>, or \<open>None\<close> where Python raises ValueError.
\<close>

fun py_int :: "(pystr \<Rightarrow> int option) \<Rightarrow> json \<Rightarrow> error + int" where
  "py_int to_int (JInt i) = Inr i"
| "py_int to_int (JBool b) = Inr (if b then 1 else 0)"
| "py_int to_int (JFloat r) = Inr (if 0 \<le> r then \<lfloor>r\<rfloor> else \<lceil>r\<rceil>)"
| "py_int to_int (JInf positive) = Inl OverflowError"
| "py_int to_int JNaN = Inl ValueError"
| "py_int to_int (JStr s) = (case to_int s of None \<Rightarrow> Inl ValueError | Some i \<Rightarrow> Inr i)"
| "py_int to_int JNull = Inl TypeError"
| "py_int to_int (JArr xs) = Inl TypeError"
| "py_int to_int (JObj m) = Inl TypeError"

text \<open>
  \<open>xs[i]\<close> on a Python list: a negative index counts from the end, and an index
  outside the list raises IndexError.
\<close>

definition py_index :: "'a list \<Rightarrow> int \<Rightarrow> error + 'a" where
  "py_index xs i =
     (let n = int (length xs); k = (if i < 0 then n + i else i)
      in if k < 0 \<or> n \<le> k then Inl IndexError else Inr (xs ! nat k))"

text \<open>
  \<open>v[key]\<close> with a string as key: the entry of a dictionary, KeyError when the
  dictionary has no such key, TypeError on every value that is not a dictionary.
\<close>

fun getitem :: "json \<Rightarrow> pystr \<Rightarrow> error + json" where
  "getitem (JObj m) key = (case fmlookup m key of None \<Rightarrow> Inl KeyError | Some v \<Rightarrow> Inr v)"
| "getitem v key = Inl TypeError"

text \<open>
  \<open>v[i]\<close> with \<open>i\<close> one of the numbers 0 and 1: the entry of a list, the character
  of a string, KeyError on a dictionary (its keys are strings), TypeError on a
  number, a bool and \<open>None\<close>.
\<close>

fun subscript :: "json \<Rightarrow> nat \<Rightarrow> error + json" where
  "subscript (JArr xs) i = py_index xs (int i)"
| "subscript (JStr s) i = (case py_index s (int i) of Inl e \<Rightarrow> Inl e | Inr c \<Rightarrow> Inr (JStr [c]))"
| "subscript (JObj m) i = Inl KeyError"
| "subscript v i = Inl TypeError"

text \<open>\<open>key in d\<close> on a dictionary \<open>d\<close>.\<close>

fun has_key :: "json \<Rightarrow> pystr \<Rightarrow> bool" where
  "has_key (JObj m) key = (fmlookup m key \<noteq> None)"
| "has_key v key = False"

section \<open>The result parser (preprocessing.py)\<close>

text \<open>
  The parser is given a list of JSON values, the events of a jsPsych run. It reads
  four entries of each event. Its second argument here is the reading of integer
  literals that \<open>int\<close> applies to a string.
\<close>

text \<open>The dictionary of the three result columns.\<close>

record results_dict =
  col_dots_left :: "int list"
  col_dots_right :: "int list"
  col_accuracy :: "real list"

text \<open>\<open>trial['number_of_oobs'][i]\<close>.\<close>

definition number_of_oobs :: "json \<Rightarrow> nat \<Rightarrow> error + json" where
  "number_of_oobs trial i =
     (case getitem trial (py_str ''number_of_oobs'') of
        Inl e \<Rightarrow> Inl e
      | Inr oobs \<Rightarrow> subscript oobs i)"

text \<open>
  Lines 27 to 40 of preprocessing.py, for one trial that passed both filters:
  read the two dot counts and the key, compute the accuracy, append to the columns.
\<close>

definition record_trial ::
  "(pystr \<Rightarrow> int option) \<Rightarrow> json \<Rightarrow> results_dict \<Rightarrow> error + results_dict" where
  "record_trial to_int trial d =
     (case number_of_oobs trial 0 of
        Inl e \<Rightarrow> Inl e
      | Inr dl \<Rightarrow>
         (case number_of_oobs trial 1 of
            Inl e \<Rightarrow> Inl e
          | Inr dr \<Rightarrow>
             (case getitem trial (py_str ''key_press'') of
                Inl e \<Rightarrow> Inl e
              | Inr choice \<Rightarrow>
                  let acc = (if py_eq dl dr \<and> py_eq choice (JStr (py_str ''y''))
                                \<or> \<not> py_eq dl dr \<and> py_eq choice (JStr (py_str ''n''))
                             then 1 else 0 :: int)
                  in (case py_int to_int dl of
                        Inl e \<Rightarrow> Inl e
                      | Inr l \<Rightarrow>
                         (case py_int to_int dr of
                            Inl e \<Rightarrow> Inl e
                          | Inr r \<Rightarrow>
                              Inr \<lparr>col_dots_left = col_dots_left d @ [l],
                                   col_dots_right = col_dots_right d @ [r],
                                   col_accuracy = col_accuracy d @ [of_int acc]\<rparr>)))))"

text \<open>The loop over the trials, with its two \<open>continue\<close> filters.\<close>

fun trial_loop ::
  "(pystr \<Rightarrow> int option) \<Rightarrow> json list \<Rightarrow> results_dict \<Rightarrow> error + results_dict" where
  "trial_loop to_int [] d = Inr d"
| "trial_loop to_int (trial # rest) d =
     (case getitem trial (py_str ''trial_type'') of
        Inl e \<Rightarrow> Inl e
      | Inr ty \<Rightarrow>
          if \<not> py_eq ty (JStr (py_str ''rok'')) then trial_loop to_int rest d
          else if \<not> has_key trial (py_str ''rt'') \<or> getitem trial (py_str ''rt'') = Inr JNull
          then trial_loop to_int rest d
          else (case record_trial to_int trial d of
                  Inl e \<Rightarrow> Inl e
                | Inr d' \<Rightarrow> trial_loop to_int rest d'))"

text \<open>
  \<open>pd.DataFrame(dict)\<close>: the rows of a dictionary of columns; pandas raises
  ValueError when the columns differ in length.
\<close>

definition DataFrame :: "results_dict \<Rightarrow> error + observation list" where
  "DataFrame d =
     (if length (col_dots_left d) = length (col_dots_right d)
         \<and> length (col_dots_right d) = length (col_accuracy d)
      then Inr (map (\<lambda>(l, r, a). \<lparr>dots_left = l, dots_right = r, accuracy = a\<rparr>)
                  (zip (col_dots_left d) (zip (col_dots_right d) (col_accuracy d))))
      else Inl ValueError)"

definition trial_list_to_experiment_data ::
  "(pystr \<Rightarrow> int option) \<Rightarrow> json list \<Rightarrow> error + observation list" where
  "trial_list_to_experiment_data to_int trial_sequence =
     (case trial_loop to_int trial_sequence
             \<lparr>col_dots_left = [], col_dots_right = [], col_accuracy = []\<rparr> of
        Inl e \<Rightarrow> Inl e
      | Inr results \<Rightarrow> DataFrame results)"

subsection \<open>What the parser is claimed to do\<close>

text \<open>
  A trial of the measured type with a recorded response: a dictionary whose
  \<open>trial_type\<close> is \<open>rok\<close> and which has an \<open>rt\<close> entry that is not \<open>None\<close>.
\<close>

definition measured_with_response :: "json \<Rightarrow> bool" where
  "measured_with_response trial =
     (getitem trial (py_str ''trial_type'') = Inr (JStr (py_str ''rok''))
      \<and> has_key trial (py_str ''rt'') \<and> getitem trial (py_str ''rt'') \<noteq> Inr JNull)"

text \<open>The two dot counts of a trial, when it has them.\<close>

definition dot_counts :: "json \<Rightarrow> (json \<times> json) option" where
  "dot_counts trial =
     (case number_of_oobs trial 0 of
        Inl e \<Rightarrow> None
      | Inr dl \<Rightarrow> (case number_of_oobs trial 1 of Inl e \<Rightarrow> None | Inr dr \<Rightarrow> Some (dl, dr)))"

text \<open>
  A trial that the parser can read: it is a dictionary with a \<open>trial_type\<close> entry,
  and if it is of the measured type and has a recorded response it has two dot
  counts, each of which \<open>int\<close> accepts, and a \<open>key_press\<close> entry.
\<close>

definition readable :: "(pystr \<Rightarrow> int option) \<Rightarrow> json \<Rightarrow> bool" where
  "readable to_int trial =
     (\<not> isl (getitem trial (py_str ''trial_type'')) \<and>
      (\<not> measured_with_response trial \<or>
         (case dot_counts trial of
            None \<Rightarrow> False
          | Some (dl, dr) \<Rightarrow> \<not> isl (py_int to_int dl) \<and> \<not> isl (py_int to_int dr))
         \<and> \<not> isl (getitem trial (py_str ''key_press''))))"

text \<open>The accuracy label of the claim, from the two dot counts and the key pressed.\<close>

definition label :: "json \<Rightarrow> json \<Rightarrow> json \<Rightarrow> real" where
  "label dl dr key =
     (if (py_eq dl dr \<and> key = JStr (py_str ''y'')) \<or> (\<not> py_eq dl dr \<and> key = JStr (py_str ''n''))
      then 1 else 0)"

text \<open>
  A row of the table belongs to a trial: its two counts are what \<open>int\<close> makes of the
  dot counts of the trial, and its accuracy is the label of the trial.
\<close>

definition row_of_trial :: "(pystr \<Rightarrow> int option) \<Rightarrow> json \<Rightarrow> observation \<Rightarrow> bool" where
  "row_of_trial to_int trial row =
     (case dot_counts trial of
        None \<Rightarrow> False
      | Some (dl, dr) \<Rightarrow>
         (case getitem trial (py_str ''key_press'') of
            Inl e \<Rightarrow> False
          | Inr key \<Rightarrow>
              py_int to_int dl = Inr (dots_left row) \<and> py_int to_int dr = Inr (dots_right row)
              \<and> accuracy row = label dl dr key))"

text \<open>The row that a readable trial contributes.\<close>

definition row_of :: "(pystr \<Rightarrow> int option) \<Rightarrow> json \<Rightarrow> observation" where
  "row_of to_int trial =
     (case dot_counts trial of
        None \<Rightarrow> \<lparr>dots_left = 0, dots_right = 0, accuracy = 0\<rparr>
      | Some (dl, dr) \<Rightarrow>
          \<lparr>dots_left = (case py_int to_int dl of Inl e \<Rightarrow> 0 | Inr l \<Rightarrow> l),
           dots_right = (case py_int to_int dr of Inl e \<Rightarrow> 0 | Inr r \<Rightarrow> r),
           accuracy = label dl dr (case getitem trial (py_str ''key_press'') of
                                     Inl e \<Rightarrow> JNull | Inr key \<Rightarrow> key)\<rparr>)"

section \<open>Variables and the design space (autora_workflow.py, lines 66 to 84)\<close>

definition num_cycles :: nat where "num_cycles = 2"
definition num_trials :: nat where "num_trials = 10"
definition num_conditions_per_cycle :: nat where "num_conditions_per_cycle = 2"

text \<open>
  A variable has a name, the values it may take (left unset, here empty, for the
  dependent variable) and a value range (set for the dependent variable only).
\<close>

record variable =
  name :: string
  allowed_values :: "int list"
  value_range :: "(real \<times> real) option"

record variable_collection =
  independent_variables :: "variable list"
  dependent_variables :: "variable list"

text \<open>
  The module-level \<open>variables\<close>. \<open>np.linspace(1, 100, 100)\<close> is the hundred
  whole numbers 1.0, 2.0, ..., 100.0, each of them exact.
\<close>

definition study_variables :: variable_collection where
  "study_variables =
     \<lparr>independent_variables =
        [\<lparr>name = ''dots_left'', allowed_values = [1..100], value_range = None\<rparr>,
         \<lparr>name = ''dots_right'', allowed_values = [1..100], value_range = None\<rparr>],
      dependent_variables =
        [\<lparr>name = ''accuracy'', allowed_values = [], value_range = Some (0, 1)\<rparr>]\<rparr>"

text \<open>
  Modelled from the spec: \<open>grid_pool\<close> of the autora library, which is not part of
  the sources. The spec (4.4) has it as the cross-product of the declared allowed-value
  sets in declaration order; a row lists one value per variable, the first variable
  varying slowest.
\<close>

fun grid_pool :: "'a list list \<Rightarrow> 'a list list" where
  "grid_pool [] = [[]]"
| "grid_pool (vals # rest) = concat (map (\<lambda>v. map (\<lambda>row. v # row) (grid_pool rest)) vals)"

text \<open>A row of the two-column grid as a condition record.\<close>

fun row_condition :: "int list \<Rightarrow> condition" where
  "row_condition (l # r # _) = \<lparr>dots_left = l, dots_right = r\<rparr>"
| "row_condition _ = \<lparr>dots_left = 0, dots_right = 0\<rparr>"

text \<open>
  Lines 80 to 84, for a given collection of two independent variables: the grid,
  with the rows removed in which the two variables hold equal values.
\<close>

definition design_space :: "variable_collection \<Rightarrow> condition list" where
  "design_space vs =
     filter (\<lambda>c. dots_left c \<noteq> dots_right c)
       (map row_condition (grid_pool (map allowed_values (independent_variables vs))))"

definition allowed_conditions :: "condition list" where
  "allowed_conditions = design_space study_variables"

text \<open>Whether a value lies in the declared range of a variable.\<close>

definition in_value_range :: "variable \<Rightarrow> real \<Rightarrow> bool" where
  "in_value_range v x = (case value_range v of None \<Rightarrow> True | Some (lo, hi) \<Rightarrow> lo \<le> x \<and> x \<le> hi)"

section \<open>State container and delta merge\<close>

text \<open>
  The state of the loop: the variable declarations, the condition pool, the
  observation table and the model history. Pool and table are unset (\<open>None\<close>) in a
  fresh state. Model handles are opaque values of type \<open>'m\<close>.
\<close>

record 'm state =
  variables :: variable_collection
  conditions :: "condition list option"
  experiment_data :: "observation list option"
  models :: "'m list"

text \<open>A delta names the fields a stage changed; \<open>Delta()\<close> names none.\<close>

record 'm delta =
  d_conditions :: "condition list option"
  d_experiment_data :: "observation list option"
  d_models :: "'m list option"

definition Delta :: "'m delta" where
  "Delta = \<lparr>d_conditions = None, d_experiment_data = None, d_models = None\<rparr>"

definition StandardState :: "variable_collection \<Rightarrow> 'm state" where
  "StandardState vs = \<lparr>variables = vs, conditions = None, experiment_data = None, models = []\<rparr>"

text \<open>
  Modelled from the spec: the merge of a delta into \<open>StandardState\<close> of the autora
  library, which is not part of the sources. The spec (4.1) has the condition pool
  replaced, the observation table and the model history appended to, an unnamed field
  left as it is, and an append to an unset field initialise it.
\<close>

definition add_delta :: "'m state \<Rightarrow> 'm delta \<Rightarrow> 'm state" where
  "add_delta s d =
     s\<lparr>conditions :=
         (case d_conditions d of None \<Rightarrow> conditions s | Some new \<Rightarrow> Some new),
       experiment_data :=
         (case d_experiment_data d of
            None \<Rightarrow> experiment_data s
          | Some new \<Rightarrow> (case experiment_data s of None \<Rightarrow> Some new | Some old \<Rightarrow> Some (old @ new))),
       models :=
         (case d_models d of None \<Rightarrow> models s | Some new \<Rightarrow> models s @ new)\<rparr>"

text \<open>
  Modelled from the spec: the stage wrapper \<open>on_state\<close> of the autora library (4.2).
  It calls the stage function on fields of the state and merges the delta it returns;
  no delta is merged when the stage function raises.
\<close>

definition on_state :: "('m state \<Rightarrow> error + 'm delta) \<Rightarrow> 'm state \<Rightarrow> error + 'm state" where
  "on_state f s = (case f s of Inl e \<Rightarrow> Inl e | Inr d \<Rightarrow> Inr (add_delta s d))"

text \<open>The rows of the observation table, none when it is unset.\<close>

definition observed :: "'m state \<Rightarrow> observation list" where
  "observed s = (case experiment_data s of None \<Rightarrow> [] | Some t \<Rightarrow> t)"

section \<open>Collaborators\<close>

text \<open>
  The text of a result as the execution engine returns it: a JSON object with a
  \<open>trials\<close> list, a JSON object without one, or text that is not JSON.
\<close>

datatype blob = Blob "json list" | NoTrials | NotJSON

fun loads_trials :: "blob \<Rightarrow> error + json list" where
  "loads_trials (Blob ts) = Inr ts"
| "loads_trials NoTrials = Inl KeyError"
| "loads_trials NotJSON = Inl JSONDecodeError"

text \<open>
  The condition sampler is one of two library functions, chosen when the module is
  loaded: \<open>nuts_sample\<close>, or the example sampler when the former cannot be imported.
  Both are functions of their arguments and of the number of the cycle, which stands
  for whatever else (random draws) sets one call apart from another.
\<close>

datatype 'm sampler =
    NutsSample "nat \<Rightarrow> condition list \<Rightarrow> condition list \<Rightarrow> nat \<Rightarrow> string list
                  \<Rightarrow> error + condition list"
  | FallbackSample "nat \<Rightarrow> condition list \<Rightarrow> 'm list \<Rightarrow> condition list \<Rightarrow> nat
                  \<Rightarrow> error + condition list"

text \<open>
  The external functions the workflow calls. Each may raise. The first argument of
  a function that is called once per cycle is the number of the cycle; the trial
  generator is called once per row and also takes the position of the row. The last
  field is Python's reading of an integer literal from a string, which the parser
  reaches through \<open>int\<close>.
\<close>

record ('m, 'tl) collaborators =
  random_sample :: "condition list \<Rightarrow> nat \<Rightarrow> error + condition list"
  experimentalist :: "'m sampler"
  fit_nuts :: "nat \<Rightarrow> condition list \<Rightarrow> real list \<Rightarrow> error + 'm"
  fit_bms :: "nat \<Rightarrow> condition list \<Rightarrow> real list \<Rightarrow> error + 'm"
  fit_lr :: "nat \<Rightarrow> condition list \<Rightarrow> real list \<Rightarrow> error + 'm"
  trial_sequence :: "nat \<Rightarrow> nat \<Rightarrow> int \<Rightarrow> int \<Rightarrow> nat \<Rightarrow> error + 'tl"
  stimulus_sequence :: "'tl \<Rightarrow> error + string"
  experiment_runner :: "nat \<Rightarrow> (condition \<times> string) list \<Rightarrow> error + blob list"
  int_of_str :: "pystr \<Rightarrow> int option"

section \<open>Stages (autora_workflow.py)\<close>

text \<open>
  A sampler that never returns a row of the existing (reference) conditions it is
  given. The contract of the spec does not ask this of a sampler.
\<close>

fun avoids_existing :: "'m sampler \<Rightarrow> bool" where
  "avoids_existing (NutsSample nuts_sample) =
     (\<forall>i allowed existing k ivs pool.
        nuts_sample i allowed existing k ivs = Inr pool \<longrightarrow> set pool \<inter> set existing = {})"
| "avoids_existing (FallbackSample fallback_sample) =
     (\<forall>i conds ms ref k pool.
        fallback_sample i conds ms ref k = Inr pool \<longrightarrow> set pool \<inter> set ref = {})"

text \<open>Lines 37 to 58: the call of whichever sampler was imported.\<close>

fun pick_conditions ::
  "'m sampler \<Rightarrow> nat \<Rightarrow> condition list \<Rightarrow> condition list \<Rightarrow> string list \<Rightarrow> 'm list \<Rightarrow> nat
     \<Rightarrow> error + condition list" where
  "pick_conditions (NutsSample nuts_sample) i allowed existing ivs ms k =
     nuts_sample i allowed existing k ivs"
| "pick_conditions (FallbackSample fallback_sample) i allowed existing ivs ms k =
     (let ref = (if existing \<noteq> [] then existing else take 0 allowed)
      in fallback_sample i allowed ms ref k)"

text \<open>Lines 114 to 132: the fit stage.\<close>

definition theorist ::
  "('m, 'tl) collaborators \<Rightarrow> nat \<Rightarrow> observation list option \<Rightarrow> variable_collection
     \<Rightarrow> error + 'm delta" where
  "theorist c i data vs =
     (if data = None \<or> data = Some [] then Inr Delta
      else
        let X = map condition.truncate (case data of Some t \<Rightarrow> t | None \<Rightarrow> []);
            y = map accuracy (case data of Some t \<Rightarrow> t | None \<Rightarrow> [])
        in case fit_nuts c i X y of
             Inl e \<Rightarrow> Inl e
           | Inr model_nuts \<Rightarrow>
              (case fit_bms c i X y of
                 Inl e \<Rightarrow> Inl e
               | Inr model_bms \<Rightarrow>
                  (case fit_lr c i X y of
                     Inl e \<Rightarrow> Inl e
                   | Inr model_lr \<Rightarrow>
                       Inr (Delta\<lparr>d_models := Some [model_nuts, model_bms, model_lr]\<rparr>))))"

definition theorist_on_state ::
  "('m, 'tl) collaborators \<Rightarrow> nat \<Rightarrow> 'm state \<Rightarrow> error + 'm state" where
  "theorist_on_state c i = on_state (\<lambda>s. theorist c i (experiment_data s) (variables s))"

text \<open>Lines 136 to 138: the bootstrap stage.\<close>

definition initialize_state ::
  "('m, 'tl) collaborators \<Rightarrow> condition list \<Rightarrow> nat \<Rightarrow> 'm state \<Rightarrow> error + 'm state" where
  "initialize_state c allowed num_samples =
     on_state (\<lambda>s. case random_sample c allowed num_samples of
                      Inl e \<Rightarrow> Inl e
                    | Inr sampled \<Rightarrow> Inr (Delta\<lparr>d_conditions := Some sampled\<rparr>))"

text \<open>pandas \<open>drop_duplicates\<close>: the first of equal rows stays, in its place.\<close>

fun drop_duplicates :: "'a list \<Rightarrow> 'a list" where
  "drop_duplicates [] = []"
| "drop_duplicates (x # xs) = x # drop_duplicates (filter (\<lambda>y. y \<noteq> x) xs)"

text \<open>Lines 140 to 147: the selection stage.\<close>

definition existing_conditions :: "observation list option \<Rightarrow> condition list" where
  "existing_conditions data =
     (case data of
        None \<Rightarrow> []
      | Some t \<Rightarrow> if t \<noteq> [] then drop_duplicates (map condition.truncate t) else [])"

definition experimentalist_stage ::
  "('m, 'tl) collaborators \<Rightarrow> nat \<Rightarrow> condition list \<Rightarrow> observation list option
     \<Rightarrow> variable_collection \<Rightarrow> 'm list \<Rightarrow> nat \<Rightarrow> error + 'm delta" where
  "experimentalist_stage c i allowed data vs models_to_compare num_samples =
     (let ivs = map name (independent_variables vs);
          existing = existing_conditions data
      in case pick_conditions (experimentalist c) i allowed existing ivs models_to_compare num_samples of
           Inl e \<Rightarrow> Inl e
         | Inr chosen \<Rightarrow> Inr (Delta\<lparr>d_conditions := Some chosen\<rparr>))"

definition experimentalist_on_state ::
  "('m, 'tl) collaborators \<Rightarrow> nat \<Rightarrow> condition list \<Rightarrow> 'm list \<Rightarrow> nat \<Rightarrow> 'm state
     \<Rightarrow> error + 'm state" where
  "experimentalist_on_state c i allowed models_to_compare num_samples =
     on_state (\<lambda>s. experimentalist_stage c i allowed (experiment_data s) (variables s)
                      models_to_compare num_samples)"

text \<open>Lines 165 to 173: one compiled experiment per row of the pool.\<close>

fun compile_rows ::
  "('m, 'tl) collaborators \<Rightarrow> nat \<Rightarrow> nat \<Rightarrow> condition list \<Rightarrow> string list
     \<Rightarrow> error + string list" where
  "compile_rows c i j [] res = Inr res"
| "compile_rows c i j (row # rows) res =
     (case trial_sequence c i j (dots_left row) (dots_right row) num_trials of
        Inl e \<Rightarrow> Inl e
      | Inr timeline \<Rightarrow>
         (case stimulus_sequence c timeline of
            Inl e \<Rightarrow> Inl e
          | Inr js_code \<Rightarrow> compile_rows c i (Suc j) rows (res @ [js_code])))"

text \<open>Lines 183 to 187: every returned result is parsed and concatenated.\<close>

fun preprocess ::
  "(pystr \<Rightarrow> int option) \<Rightarrow> blob list \<Rightarrow> observation list \<Rightarrow> error + observation list" where
  "preprocess to_int [] data = Inr data"
| "preprocess to_int (item # items) data =
     (case loads_trials item of
        Inl e \<Rightarrow> Inl e
      | Inr lst \<Rightarrow>
         (case trial_list_to_experiment_data to_int lst of
            Inl e \<Rightarrow> Inl e
          | Inr df \<Rightarrow> preprocess to_int items (data @ df)))"

text \<open>Lines 163 to 191: the execution stage.\<close>

definition runner ::
  "('m, 'tl) collaborators \<Rightarrow> nat \<Rightarrow> condition list option \<Rightarrow> error + 'm delta" where
  "runner c i conds =
     (case conds of
        None \<Rightarrow> Inl AttributeError
      | Some rows \<Rightarrow>
         (case compile_rows c i 0 rows [] of
            Inl e \<Rightarrow> Inl e
          | Inr res \<Rightarrow>
             (case experiment_runner c i (zip rows res) of
                Inl e \<Rightarrow> Inl e
              | Inr data_raw \<Rightarrow>
                 (case preprocess (int_of_str c) data_raw [] of
                    Inl e \<Rightarrow> Inl e
                  | Inr data \<Rightarrow> Inr (Delta\<lparr>d_experiment_data := Some data\<rparr>)))))"

definition runner_on_state ::
  "('m, 'tl) collaborators \<Rightarrow> nat \<Rightarrow> 'm state \<Rightarrow> error + 'm state" where
  "runner_on_state c i = on_state (\<lambda>s. runner c i (conditions s))"

section \<open>The workflow loop (lines 195 to 212)\<close>

text \<open>Line 205: the models handed to the selection stage.\<close>

definition models_to_compare :: "'m list \<Rightarrow> error + 'm list" where
  "models_to_compare ms =
     (case py_index ms (- 1) of
        Inl e \<Rightarrow> Inl e
      | Inr m1 \<Rightarrow>
         (case py_index ms (- 2) of
            Inl e \<Rightarrow> Inl e
          | Inr m2 \<Rightarrow>
             (case py_index ms (- 3) of
                Inl e \<Rightarrow> Inl e
              | Inr m3 \<Rightarrow> Inr [m1, m2, m3])))"

text \<open>The state after the execution and the fit stage of cycle \<open>i\<close>.\<close>

definition fit_cycle :: "('m, 'tl) collaborators \<Rightarrow> nat \<Rightarrow> 'm state \<Rightarrow> error + 'm state" where
  "fit_cycle c i s =
     (case runner_on_state c i s of
        Inl e \<Rightarrow> Inl e
      | Inr s1 \<Rightarrow> theorist_on_state c i s1)"

text \<open>One pass of the loop body: execute, fit, select.\<close>

definition cycle :: "('m, 'tl) collaborators \<Rightarrow> nat \<Rightarrow> 'm state \<Rightarrow> error + 'm state" where
  "cycle c i s =
     (case fit_cycle c i s of
        Inl e \<Rightarrow> Inl e
      | Inr s2 \<Rightarrow>
         (case models_to_compare (models s2) of
            Inl e \<Rightarrow> Inl e
          | Inr ms \<Rightarrow>
              experimentalist_on_state c i allowed_conditions ms num_conditions_per_cycle s2))"

text \<open>
  The workflow up to the end of its first \<open>n\<close> cycles, numbered from 0: the fresh
  state, the bootstrap stage, then the loop body \<open>n\<close> times.
\<close>

fun workflow :: "('m, 'tl) collaborators \<Rightarrow> nat \<Rightarrow> error + 'm state" where
  "workflow c 0 =
     initialize_state c allowed_conditions num_conditions_per_cycle (StandardState study_variables)"
| "workflow c (Suc n) =
     (case workflow c n of
        Inl e \<Rightarrow> Inl e
      | Inr s \<Rightarrow> cycle c n s)"

definition main :: "('m, 'tl) collaborators \<Rightarrow> error + 'm state" where
  "main c = workflow c num_cycles"

text \<open>The state after the fit stage of cycle \<open>n\<close>, the \<open>n + 1\<close>-th fit stage of the run.\<close>

definition fitted :: "('m, 'tl) collaborators \<Rightarrow> nat \<Rightarrow> error + 'm state" where
  "fitted c n = (case workflow c n of Inl e \<Rightarrow> Inl e | Inr s \<Rightarrow> fit_cycle c n s)"

section \<open>A laboratory for running the workflow\<close>

text \<open>
  Concrete collaborators on which the workflow can be run: a sampler that proposes
  the same two rows in every cycle, fitters that return a tag and the number of the
  cycle, and an execution engine that returns, for each row sent, one result with a
  fixation event and one answered trial.
\<close>

definition fixation :: json where
  "fixation =
     JObj (fmap_of_list [(py_str ''trial_type'', JStr (py_str ''html-keyboard-response'')),
                         (py_str ''rt'', JNull)])"

definition answered :: "int \<Rightarrow> int \<Rightarrow> string \<Rightarrow> json" where
  "answered l r k =
     JObj (fmap_of_list [(py_str ''trial_type'', JStr (py_str ''rok'')),
                         (py_str ''rt'', JInt 640),
                         (py_str ''number_of_oobs'', JArr [JInt l, JInt r]),
                         (py_str ''key_press'', JStr (py_str k))])"

definition unanswered :: "int \<Rightarrow> int \<Rightarrow> json" where
  "unanswered l r =
     JObj (fmap_of_list [(py_str ''trial_type'', JStr (py_str ''rok'')),
                         (py_str ''rt'', JNull),
                         (py_str ''number_of_oobs'', JArr [JInt l, JInt r]),
                         (py_str ''key_press'', JNull)])"

text \<open>
  A reading of integer literals that knows the strings of decimal digits and rejects
  every other string. Python reads more strings than these.
\<close>

definition decimal :: "pystr \<Rightarrow> int option" where
  "decimal s =
     (if s \<noteq> [] \<and> list_all (\<lambda>c. 48 \<le> c \<and> c \<le> 57) s
      then Some (foldl (\<lambda>a c. 10 * a + int (c - 48)) 0 s)
      else None)"

definition lab :: "(string \<times> nat, (int \<times> int) list) collaborators" where
  "lab =
     \<lparr>random_sample = (\<lambda>allowed k. Inr [\<lparr>dots_left = 3, dots_right = 7\<rparr>, \<lparr>dots_left = 12, dots_right = 5\<rparr>]),
      experimentalist =
        NutsSample (\<lambda>i allowed existing k ivs.
                      Inr [\<lparr>dots_left = 3, dots_right = 7\<rparr>, \<lparr>dots_left = 40, dots_right = 41\<rparr>]),
      fit_nuts = (\<lambda>i X y. Inr (''nuts'', i)),
      fit_bms = (\<lambda>i X y. Inr (''bms'', i)),
      fit_lr = (\<lambda>i X y. Inr (''lr'', i)),
      trial_sequence = (\<lambda>i j l r n. Inr [(l, r), (r, l)]),
      stimulus_sequence = (\<lambda>timeline. Inr ''js''),
      experiment_runner =
        (\<lambda>i sent. Inr (map (\<lambda>(row, code). Blob [fixation, answered (dots_left row) (dots_right row) ''n''])
                          sent)),
      int_of_str = decimal\<rparr>"

text \<open>
  The same laboratory with a participant who answers no trial: whatever is sent, one
  result comes back, with a fixation event and one trial of the measured type that
  has no response.
\<close>

definition silent_lab :: "(string \<times> nat, (int \<times> int) list) collaborators" where
  "silent_lab = lab\<lparr>experiment_runner := (\<lambda>i sent. Inr [Blob [fixation, unanswered 3 7]])\<rparr>"

text \<open>
  The states of the laboratory run after the first fit stage, after the first
  selection stage and after the second fit stage.
\<close>

definition lab_fitted :: "(string \<times> nat) state" where
  "lab_fitted =
     \<lparr>variables = study_variables,
      conditions = Some [\<lparr>dots_left = 3, dots_right = 7\<rparr>, \<lparr>dots_left = 12, dots_right = 5\<rparr>],
      experiment_data = Some [\<lparr>dots_left = 3, dots_right = 7, accuracy = 1\<rparr>,
                              \<lparr>dots_left = 12, dots_right = 5, accuracy = 1\<rparr>],
      models = [(''nuts'', 0), (''bms'', 0), (''lr'', 0)]\<rparr>"

definition lab_selected :: "(string \<times> nat) state" where
  "lab_selected =
     lab_fitted\<lparr>conditions := Some [\<lparr>dots_left = 3, dots_right = 7\<rparr>, \<lparr>dots_left = 40, dots_right = 41\<rparr>]\<rparr>"

definition lab_refitted :: "(string \<times> nat) state" where
  "lab_refitted =
     lab_selected
       \<lparr>experiment_data := Some [\<lparr>dots_left = 3, dots_right = 7, accuracy = 1\<rparr>,
                              \<lparr>dots_left = 12, dots_right = 5, accuracy = 1\<rparr>,
                              \<lparr>dots_left = 3, dots_right = 7, accuracy = 1\<rparr>,
                              \<lparr>dots_left = 40, dots_right = 41, accuracy = 1\<rparr>],
        models := [(''nuts'', 0), (''bms'', 0), (''lr'', 0), (''nuts'', 1), (''bms'', 1), (''lr'', 1)]\<rparr>"

text \<open>
  A laboratory whose sampler is the fallback one and proposes, of three candidate
  rows, the first \<open>k\<close> that are not among the reference conditions.
\<close>

definition careful_lab :: "(string \<times> nat, (int \<times> int) list) collaborators" where
  "careful_lab =
     lab\<lparr>experimentalist :=
           FallbackSample (\<lambda>i conds ms ref k.
             Inr (take k (filter (\<lambda>row. row \<notin> set ref)
                    [\<lparr>dots_left = 3, dots_right = 7\<rparr>, \<lparr>dots_left = 40, dots_right = 41\<rparr>,
                     \<lparr>dots_left = 9, dots_right = 2\<rparr>])))\<rparr>"

text \<open>The same with \<open>nuts_sample\<close> as the sampler.\<close>

definition careful_nuts_lab :: "(string \<times> nat, (int \<times> int) list) collaborators" where
  "careful_nuts_lab =
     lab\<lparr>experimentalist :=
           NutsSample (\<lambda>i allowed existing k ivs.
             Inr (take k (filter (\<lambda>row. row \<notin> set existing)
                    [\<lparr>dots_left = 3, dots_right = 7\<rparr>, \<lparr>dots_left = 40, dots_right = 41\<rparr>,
                     \<lparr>dots_left = 9, dots_right = 2\<rparr>])))\<rparr>"

section \<open>The parser on readable and unreadable trial lists\<close>

text \<open>
  On a list of readable trials the parser returns the rows of the kept trials, and a
  list on which it returns a table is a list of readable trials.
\<close>

lemma py_eq_str: "py_eq v (JStr s) \<longleftrightarrow> v = JStr s"
  by (cases v) (auto simp: py_eq_def)

lemma measured_getitem:
  assumes "measured_with_response t"
  shows "getitem t (py_str ''trial_type'') = Inr (JStr (py_str ''rok''))"
    and "has_key t (py_str ''rt'')" and "getitem t (py_str ''rt'') \<noteq> Inr JNull"
  using assms by (simp_all add: measured_with_response_def)

lemma trial_loop_skip:
  assumes "\<not> isl (getitem t (py_str ''trial_type''))" and "\<not> measured_with_response t"
  shows "trial_loop f (t # ts) d = trial_loop f ts d"
proof -
  from assms(1) obtain ty where ty: "getitem t (py_str ''trial_type'') = Inr ty"
    by (cases "getitem t (py_str ''trial_type'')") auto
  with assms(2) show ?thesis
    by (auto simp: measured_with_response_def py_eq_str)
qed

lemma trial_loop_keep:
  "measured_with_response t \<Longrightarrow>
   trial_loop f (t # ts) d =
     (case record_trial f t d of Inl e \<Rightarrow> Inl e | Inr d' \<Rightarrow> trial_loop f ts d')"
  by (simp add: measured_with_response_def py_eq_str)

lemma record_trial_readable:
  assumes "readable f t" "measured_with_response t"
  shows "record_trial f t d =
           Inr \<lparr>col_dots_left = col_dots_left d @ [dots_left (row_of f t)],
                col_dots_right = col_dots_right d @ [dots_right (row_of f t)],
                col_accuracy = col_accuracy d @ [accuracy (row_of f t)]\<rparr>"
proof -
  from assms obtain dl dr where dc: "dot_counts t = Some (dl, dr)"
    and ok: "\<not> isl (py_int f dl)" "\<not> isl (py_int f dr)" "\<not> isl (getitem t (py_str ''key_press''))"
    by (auto simp: readable_def split: option.splits)
  from dc have n: "number_of_oobs t 0 = Inr dl" "number_of_oobs t (Suc 0) = Inr dr"
    by (auto simp: dot_counts_def split: sum.splits)
  from ok obtain l r key where v: "py_int f dl = Inr l" "py_int f dr = Inr r"
    "getitem t (py_str ''key_press'') = Inr key"
    by (metis isl_def sum.collapse(2))
  show ?thesis
    by (simp add: record_trial_def n v row_of_def dc label_def py_eq_str)
qed

lemma record_trial_unreadable:
  assumes "\<not> readable f t" "measured_with_response t"
  shows "\<exists>e. record_trial f t d = Inl e"
proof -
  from assms(2) have ty: "\<not> isl (getitem t (py_str ''trial_type''))"
    by (simp add: measured_with_response_def)
  show ?thesis
  proof (cases "dot_counts t")
    case None
    then show ?thesis
      by (auto simp: record_trial_def dot_counts_def split: sum.splits)
  next
    case (Some p)
    obtain dl dr where p: "p = (dl, dr)" by (cases p)
    from Some p have n: "number_of_oobs t 0 = Inr dl" "number_of_oobs t (Suc 0) = Inr dr"
      by (auto simp: dot_counts_def split: sum.splits)
    from assms ty Some p have "isl (py_int f dl) \<or> isl (py_int f dr) \<or> isl (getitem t (py_str ''key_press''))"
      by (auto simp: readable_def)
    then show ?thesis
      by (auto simp: record_trial_def n isl_def Let_def split: sum.splits)
  qed
qed

lemma trial_loop_readable:
  "\<forall>t\<in>set ts. readable f t \<Longrightarrow>
   trial_loop f ts d =
     Inr \<lparr>col_dots_left = col_dots_left d @ map (\<lambda>t. dots_left (row_of f t)) (filter measured_with_response ts),
          col_dots_right = col_dots_right d @ map (\<lambda>t. dots_right (row_of f t)) (filter measured_with_response ts),
          col_accuracy = col_accuracy d @ map (\<lambda>t. accuracy (row_of f t)) (filter measured_with_response ts)\<rparr>"
proof (induction ts arbitrary: d)
  case Nil
  then show ?case by simp
next
  case (Cons t ts)
  then have r: "readable f t" and IH: "\<And>d. trial_loop f ts d = Inr \<lparr>col_dots_left = col_dots_left d @ map (\<lambda>t. dots_left (row_of f t)) (filter measured_with_response ts),
          col_dots_right = col_dots_right d @ map (\<lambda>t. dots_right (row_of f t)) (filter measured_with_response ts),
          col_accuracy = col_accuracy d @ map (\<lambda>t. accuracy (row_of f t)) (filter measured_with_response ts)\<rparr>"
    by simp_all
  show ?case
  proof (cases "measured_with_response t")
    case True
    show ?thesis
      unfolding trial_loop_keep[OF True] record_trial_readable[OF r True]
      using True by (simp add: IH)
  next
    case False
    from r have "\<not> isl (getitem t (py_str ''trial_type''))" by (simp add: readable_def)
    then have "trial_loop f (t # ts) d = trial_loop f ts d"
      by (rule trial_loop_skip[OF _ False])
    moreover have "filter measured_with_response (t # ts) = filter measured_with_response ts"
      using False by simp
    ultimately show ?thesis by (simp only: IH)
  qed
qed

lemma trial_loop_unreadable:
  "\<exists>t\<in>set ts. \<not> readable f t \<Longrightarrow> \<exists>e. trial_loop f ts d = Inl e"
proof (induction ts arbitrary: d)
  case Nil
  then show ?case by simp
next
  case (Cons t ts)
  show ?case
  proof (cases "readable f t")
    case True
    with Cons.prems have ex: "\<exists>t\<in>set ts. \<not> readable f t" by auto
    show ?thesis
    proof (cases "measured_with_response t")
      case m: True
      show ?thesis
        unfolding trial_loop_keep[OF m] record_trial_readable[OF True m]
        using Cons.IH[OF ex] by simp
    next
      case False
      from True have "\<not> isl (getitem t (py_str ''trial_type''))" by (simp add: readable_def)
      then have "trial_loop f (t # ts) d = trial_loop f ts d"
        by (rule trial_loop_skip[OF _ False])
      then show ?thesis using Cons.IH[OF ex] by (simp only:)
    qed
  next
    case False
    show ?thesis
    proof (cases "measured_with_response t")
      case m: True
      from record_trial_unreadable[OF False m, of d] obtain e where "record_trial f t d = Inl e" by blast
      then show ?thesis unfolding trial_loop_keep[OF m] by simp
    next
      case nm: False
      with False have "isl (getitem t (py_str ''trial_type''))" by (simp add: readable_def)
      then show ?thesis by (auto simp: isl_def)
    qed
  qed
qed

lemma parser_readable:
  assumes "\<forall>t\<in>set ts. readable f t"
  shows "trial_list_to_experiment_data f ts = Inr (map (row_of f) (filter measured_with_response ts))"
  unfolding trial_list_to_experiment_data_def trial_loop_readable[OF assms]
  by (simp add: DataFrame_def zip_map_map map_idI split_def zip_same_conv_map)

lemma parser_unreadable:
  assumes "\<exists>t\<in>set ts. \<not> readable f t"
  shows "\<exists>e. trial_list_to_experiment_data f ts = Inl e"
  using trial_loop_unreadable[OF assms] unfolding trial_list_to_experiment_data_def
  by (metis sum.simps(5))

lemma parser_Inr_readable:
  assumes "trial_list_to_experiment_data f ts = Inr tbl"
  shows "(\<forall>t\<in>set ts. readable f t) \<and> tbl = map (row_of f) (filter measured_with_response ts)"
proof -
  have r: "\<forall>t\<in>set ts. readable f t"
  proof (rule ccontr)
    assume "\<not> (\<forall>t\<in>set ts. readable f t)"
    then have "\<exists>t\<in>set ts. \<not> readable f t" by blast
    from parser_unreadable[OF this] assms show False by auto
  qed
  with parser_readable[OF r] assms show ?thesis by simp
qed

lemma row_of_kept:
  assumes "readable f t" "measured_with_response t"
  shows "row_of_trial f t (row_of f t)"
proof -
  from assms obtain dl dr where dc: "dot_counts t = Some (dl, dr)"
    and ok: "\<not> isl (py_int f dl)" "\<not> isl (py_int f dr)" "\<not> isl (getitem t (py_str ''key_press''))"
    by (auto simp: readable_def split: option.splits)
  from ok obtain l r key where v: "py_int f dl = Inr l" "py_int f dr = Inr r"
    "getitem t (py_str ''key_press'') = Inr key"
    by (metis isl_def sum.collapse(2))
  show ?thesis
    by (simp add: row_of_trial_def row_of_def dc v)
qed

lemma accuracy_row_of: "accuracy (row_of f t) = 0 \<or> accuracy (row_of f t) = 1"
  by (auto simp: row_of_def label_def split: option.splits)

section \<open>What each stage does to the state\<close>

text \<open>
  The fit stage appends three models or nothing, the execution stage appends rows to
  the observation table, the selection stage replaces the condition pool; each stage
  leaves the other fields as they are.
\<close>

lemma add_delta_Delta: "add_delta s Delta = s"
  by (simp add: add_delta_def Delta_def)

lemma observed_simps:
  "experiment_data s = None \<Longrightarrow> observed s = []"
  "experiment_data s = Some t \<Longrightarrow> observed s = t"
  by (simp_all add: observed_def)

lemma theorist_on_state_empty:
  assumes "observed s = []"
  shows "theorist_on_state c i s = Inr s"
proof -
  from assms have "experiment_data s = None \<or> experiment_data s = Some []"
    by (auto simp: observed_def split: option.splits)
  then have "theorist c i (experiment_data s) (variables s) = Inr Delta"
    by (simp add: theorist_def)
  then show ?thesis
    by (simp add: theorist_on_state_def on_state_def add_delta_Delta)
qed

lemma theorist_on_state_fits:
  assumes ne: "observed s \<noteq> []" and ok: "theorist_on_state c i s = Inr s'"
  shows "\<exists>a b l. fit_nuts c i (map condition.truncate (observed s)) (map accuracy (observed s)) = Inr a
           \<and> fit_bms c i (map condition.truncate (observed s)) (map accuracy (observed s)) = Inr b
           \<and> fit_lr c i (map condition.truncate (observed s)) (map accuracy (observed s)) = Inr l
           \<and> models s' = models s @ [a, b, l]"
proof -
  from ne obtain t where t: "experiment_data s = Some t" "t \<noteq> []" "observed s = t"
    by (auto simp: observed_def split: option.splits)
  from ok show ?thesis
    by (auto simp: theorist_on_state_def on_state_def theorist_def t add_delta_def Delta_def Let_def
        split: sum.splits)
qed

lemma theorist_on_state_observed:
  "theorist_on_state c i s = Inr s' \<Longrightarrow> experiment_data s' = experiment_data s \<and> conditions s' = conditions s \<and> variables s' = variables s"
  by (auto simp: theorist_on_state_def on_state_def theorist_def add_delta_def Delta_def Let_def
        split: sum.splits if_splits)

lemma runner_on_state_appends:
  assumes "runner_on_state c i s = Inr s'"
  shows "(\<exists>new. experiment_data s' = Some (observed s @ new)) \<and> models s' = models s
           \<and> conditions s' = conditions s \<and> variables s' = variables s"
  using assms
  by (auto simp: runner_on_state_def on_state_def runner_def add_delta_def Delta_def observed_def
        split: sum.splits option.splits)

lemma experimentalist_on_state_replaces:
  assumes "experimentalist_on_state c i allowed ms k s = Inr s'"
  shows "\<exists>chosen. pick_conditions (experimentalist c) i allowed (existing_conditions (experiment_data s))
            (map name (independent_variables (variables s))) ms k = Inr chosen
          \<and> conditions s' = Some chosen \<and> experiment_data s' = experiment_data s
          \<and> models s' = models s \<and> variables s' = variables s"
  using assms
  by (auto simp: experimentalist_on_state_def on_state_def experimentalist_stage_def add_delta_def Delta_def
        split: sum.splits)


lemma models_to_compare_short:
  "length ms < 3 \<Longrightarrow> models_to_compare ms = Inl IndexError"
  by (auto simp: models_to_compare_def py_index_def Let_def split: sum.splits)

lemma models_to_compare_Nil: "models_to_compare [] = Inl IndexError"
  by (simp add: models_to_compare_short)

lemma initialize_state_fields:
  assumes "initialize_state c allowed k s = Inr s'"
  shows "(\<exists>sampled. random_sample c allowed k = Inr sampled \<and> conditions s' = Some sampled)
         \<and> experiment_data s' = experiment_data s \<and> models s' = models s \<and> variables s' = variables s"
  using assms
  by (auto simp: initialize_state_def on_state_def add_delta_def Delta_def split: sum.splits)

lemma observed_cong: "experiment_data s' = experiment_data s \<Longrightarrow> observed s' = observed s"
  by (simp add: observed_def)

lemma fit_cycle_cases:
  assumes "fit_cycle c i s = Inr s2"
  obtains (noop) "observed s2 = []" "observed s = []" "models s2 = models s"
  | (fit) a b l where "observed s2 \<noteq> []"
      "fit_nuts c i (map condition.truncate (observed s2)) (map accuracy (observed s2)) = Inr a"
      "fit_bms c i (map condition.truncate (observed s2)) (map accuracy (observed s2)) = Inr b"
      "fit_lr c i (map condition.truncate (observed s2)) (map accuracy (observed s2)) = Inr l"
      "models s2 = models s @ [a, b, l]"
proof -
  from assms obtain s1 where r: "runner_on_state c i s = Inr s1" and t: "theorist_on_state c i s1 = Inr s2"
    by (auto simp: fit_cycle_def split: sum.splits)
  from runner_on_state_appends[OF r] obtain new where
    s1: "experiment_data s1 = Some (observed s @ new)" "models s1 = models s"
    by blast
  have o12: "observed s2 = observed s1"
    using theorist_on_state_observed[OF t] by (simp add: observed_def)
  have o1: "observed s1 = observed s @ new" using s1 by (simp add: observed_def)
  show thesis
  proof (cases "observed s1 = []")
    case True
    with theorist_on_state_empty[OF True, of c i] t have "s2 = s1" by simp
    with True o1 s1 show thesis by (intro noop) simp_all
  next
    case False
    from theorist_on_state_fits[OF False t] obtain a b l where
      "fit_nuts c i (map condition.truncate (observed s1)) (map accuracy (observed s1)) = Inr a"
      "fit_bms c i (map condition.truncate (observed s1)) (map accuracy (observed s1)) = Inr b"
      "fit_lr c i (map condition.truncate (observed s1)) (map accuracy (observed s1)) = Inr l"
      "models s2 = models s1 @ [a, b, l]"
      by blast
    with False o12 s1 show thesis by (intro fit[of a b l]) simp_all
  qed
qed

lemma fit_cycle_observed:
  assumes "fit_cycle c i s = Inr s2"
  shows "prefix (observed s) (observed s2)"
proof -
  from assms obtain s1 where r: "runner_on_state c i s = Inr s1" and t: "theorist_on_state c i s1 = Inr s2"
    by (auto simp: fit_cycle_def split: sum.splits)
  from runner_on_state_appends[OF r] obtain new where "experiment_data s1 = Some (observed s @ new)"
    by blast
  moreover have "observed s2 = observed s1"
    using theorist_on_state_observed[OF t] by (simp add: observed_def)
  ultimately show ?thesis by (simp add: observed_def)
qed

lemma cycle_split:
  assumes "cycle c i s = Inr s'"
  obtains s2 ms where "fit_cycle c i s = Inr s2" "models_to_compare (models s2) = Inr ms"
    "experimentalist_on_state c i allowed_conditions ms num_conditions_per_cycle s2 = Inr s'"
    "models s' = models s2" "observed s' = observed s2"
proof -
  from assms obtain s2 ms where a: "fit_cycle c i s = Inr s2" "models_to_compare (models s2) = Inr ms"
    "experimentalist_on_state c i allowed_conditions ms num_conditions_per_cycle s2 = Inr s'"
    by (auto simp: cycle_def split: sum.splits)
  from experimentalist_on_state_replaces[OF a(3)] have "models s' = models s2" "observed s' = observed s2"
    by (auto simp: observed_def)
  with a show thesis by (rule that)
qed

lemma workflow_Suc_split:
  assumes "workflow c (Suc n) = Inr s'"
  obtains s where "workflow c n = Inr s" "cycle c n s = Inr s'"
  using assms by (auto split: sum.splits)

lemma workflow_0_fresh:
  assumes "workflow c 0 = Inr s"
  shows "models s = []" "observed s = []"
  using initialize_state_fields[OF assms[simplified]]
  by (simp_all add: StandardState_def observed_def)

lemma workflow_invariant:
  "workflow c n = Inr s \<Longrightarrow> length (models s) = n * 3 \<and> (0 < n \<longrightarrow> observed s \<noteq> [])"
proof (induction n arbitrary: s)
  case 0
  then show ?case using workflow_0_fresh(1)[of c s] by simp
next
  case (Suc n)
  from Suc.prems obtain s0 where w: "workflow c n = Inr s0" and cy: "cycle c n s0 = Inr s"
    by (rule workflow_Suc_split)
  from cy obtain s2 ms where f: "fit_cycle c n s0 = Inr s2" and m: "models_to_compare (models s2) = Inr ms"
    and eq: "models s = models s2" "observed s = observed s2"
    by (rule cycle_split)
  from Suc.IH[OF w] have IH: "length (models s0) = n * 3" "0 < n \<longrightarrow> observed s0 \<noteq> []" by simp_all
  from f show ?case
  proof (cases rule: fit_cycle_cases)
    case noop
    with IH have "n = 0" by auto
    with IH noop have "models s2 = []" by simp
    with m show ?thesis by (simp add: models_to_compare_Nil)
  next
    case (fit a b l)
    with IH eq show ?thesis by simp
  qed
qed

lemma fitted_split:
  assumes "fitted c n = Inr s2"
  obtains s where "workflow c n = Inr s" "fit_cycle c n s = Inr s2"
  using assms by (auto simp: fitted_def split: sum.splits)

lemma cycle_models_prefix:
  assumes "cycle c i s = Inr s'" shows "prefix (models s) (models s')"
proof -
  from assms obtain s2 where f: "fit_cycle c i s = Inr s2" and eq: "models s' = models s2"
    by (rule cycle_split)
  from f show ?thesis by (cases rule: fit_cycle_cases) (simp_all add: eq)
qed

lemma workflow_earlier:
  "workflow c n = Inr s \<Longrightarrow> m \<le> n \<Longrightarrow> \<exists>s'. workflow c m = Inr s' \<and> prefix (models s') (models s)
      \<and> prefix (observed s') (observed s)"
proof (induction n arbitrary: s)
  case 0
  then show ?case by simp
next
  case (Suc n)
  from Suc.prems(1) obtain s0 where w: "workflow c n = Inr s0" and cy: "cycle c n s0 = Inr s"
    by (rule workflow_Suc_split)
  show ?case
  proof (cases "m = Suc n")
    case True
    with Suc.prems show ?thesis by simp
  next
    case False
    with Suc.prems have "m \<le> n" by simp
    from Suc.IH[OF w this] obtain s' where s': "workflow c m = Inr s'" "prefix (models s') (models s0)"
      "prefix (observed s') (observed s0)"
      by blast
    from cy obtain s2 where f: "fit_cycle c n s0 = Inr s2" and eq: "observed s = observed s2"
      by (rule cycle_split)
    have "prefix (observed s0) (observed s)" using fit_cycle_observed[OF f] eq by simp
    with s' cycle_models_prefix[OF cy] show ?thesis
      by (meson prefix_order.order_trans)
  qed
qed

lemma fitted_earlier:
  assumes f: "fitted c n = Inr s" and f': "fitted c m = Inr s'" and le: "m \<le> n"
  shows "prefix (models s') (models s)"
proof (cases "m = n")
  case True
  with f f' show ?thesis by simp
next
  case False
  with le have lt: "Suc m \<le> n" by simp
  from f obtain s0 where w: "workflow c n = Inr s0" and fc: "fit_cycle c n s0 = Inr s"
    by (rule fitted_split)
  from workflow_earlier[OF w lt] obtain a where a: "workflow c (Suc m) = Inr a" "prefix (models a) (models s0)"
    by blast
  from a(1) obtain b where b: "workflow c m = Inr b" "cycle c m b = Inr a"
    by (rule workflow_Suc_split)
  from b(2) obtain s2 where "fit_cycle c m b = Inr s2" "models a = models s2"
    by (rule cycle_split)
  with f' b(1) have "models a = models s'" by (simp add: fitted_def)
  moreover have "prefix (models s0) (models s)"
    using fc by (cases rule: fit_cycle_cases) simp_all
  ultimately show ?thesis using a(2) by (metis prefix_order.order_trans)
qed

lemma preprocess_rows:
  "preprocess to_int items data = Inr r \<Longrightarrow>
   \<exists>dfs. list_all2 (\<lambda>item df. \<exists>lst. loads_trials item = Inr lst \<and> trial_list_to_experiment_data to_int lst = Inr df) items dfs
         \<and> r = data @ concat dfs"
proof (induction items arbitrary: data)
  case Nil
  then show ?case by simp
next
  case (Cons item items)
  from Cons.prems obtain lst df where a: "loads_trials item = Inr lst" "trial_list_to_experiment_data to_int lst = Inr df"
    "preprocess to_int items (data @ df) = Inr r"
    by (auto split: sum.splits)
  from Cons.IH[OF a(3)] obtain dfs where
    "list_all2 (\<lambda>item df. \<exists>lst. loads_trials item = Inr lst \<and> trial_list_to_experiment_data to_int lst = Inr df) items dfs"
    "r = (data @ df) @ concat dfs" by blast
  with a(1,2) have "list_all2 (\<lambda>item df. \<exists>lst. loads_trials item = Inr lst \<and> trial_list_to_experiment_data to_int lst = Inr df) (item # items) (df # dfs)
      \<and> r = data @ concat (df # dfs)" by simp
  then show ?case by blast
qed

lemma runner_on_state_rows:
  assumes "runner_on_state c i s = Inr s'"
  shows "\<exists>rows res data_raw dfs. conditions s = Some rows \<and> compile_rows c i 0 rows [] = Inr res
           \<and> experiment_runner c i (zip rows res) = Inr data_raw
           \<and> list_all2 (\<lambda>item df. \<exists>lst. loads_trials item = Inr lst \<and> trial_list_to_experiment_data (int_of_str c) lst = Inr df) data_raw dfs
           \<and> observed s' = observed s @ concat dfs"
proof -
  from assms obtain rows res data_raw data where a: "conditions s = Some rows" "compile_rows c i 0 rows [] = Inr res"
    "experiment_runner c i (zip rows res) = Inr data_raw" "preprocess (int_of_str c) data_raw [] = Inr data"
    and s': "s' = add_delta s (Delta\<lparr>d_experiment_data := Some data\<rparr>)"
    by (auto simp: runner_on_state_def on_state_def runner_def split: sum.splits option.splits)
  from preprocess_rows[OF a(4)] obtain dfs where
    d: "list_all2 (\<lambda>item df. \<exists>lst. loads_trials item = Inr lst \<and> trial_list_to_experiment_data (int_of_str c) lst = Inr df) data_raw dfs"
    "data = concat dfs" by auto
  have "observed s' = observed s @ data"
    by (simp add: s' add_delta_def Delta_def observed_def split: option.splits)
  with a d show ?thesis by blast
qed

lemma fitted_earlier_observed:
  assumes f: "fitted c n = Inr s" and f': "fitted c m = Inr s'" and lt: "m < n"
  shows "observed s' \<noteq> []"
proof -
  from f obtain s0 where w: "workflow c n = Inr s0"
    by (rule fitted_split)
  from lt have "Suc m \<le> n" by simp
  from workflow_earlier[OF w this] obtain a where a: "workflow c (Suc m) = Inr a"
    by blast
  then obtain b where b: "workflow c m = Inr b" "cycle c m b = Inr a"
    by (rule workflow_Suc_split)
  from b(2) obtain s2 where "fit_cycle c m b = Inr s2" "observed a = observed s2"
    by (rule cycle_split)
  with f' b(1) have "observed a = observed s'" by (simp add: fitted_def)
  with workflow_invariant[OF a] show ?thesis by simp
qed

lemma set_drop_duplicates: "set (drop_duplicates xs) = set xs"
  by (induction xs rule: drop_duplicates.induct) auto

lemma distinct_drop_duplicates: "distinct (drop_duplicates xs)"
  by (induction xs rule: drop_duplicates.induct) (auto simp: set_drop_duplicates)

section \<open>The design space\<close>

lemma grid_pool_two: "grid_pool [as, bs] = concat (map (\<lambda>a. map (\<lambda>b. [a, b]) bs) as)"
  by (simp add: comp_def)

lemma design_space_two:
  assumes "map allowed_values (independent_variables vs) = [as, bs]"
  shows "design_space vs =
           concat (map (\<lambda>l. map (\<lambda>r. \<lparr>dots_left = l, dots_right = r\<rparr>) (filter (\<lambda>r. l \<noteq> r) bs)) as)"
  unfolding design_space_def assms grid_pool_two
  by (simp add: map_concat filter_concat comp_def filter_map)

lemma allowed_conditions_rows:
  "allowed_conditions =
     concat (map (\<lambda>l. map (\<lambda>r. \<lparr>dots_left = l, dots_right = r\<rparr>) (filter (\<lambda>r. l \<noteq> r) [1..100])) [1..100])"
  unfolding allowed_conditions_def
  by (rule design_space_two) (simp add: study_variables_def)

lemma set_allowed_conditions:
  "set allowed_conditions =
     {c. 1 \<le> dots_left c \<and> dots_left c \<le> 100 \<and> 1 \<le> dots_right c \<and> dots_right c \<le> 100
         \<and> dots_left c \<noteq> dots_right c}"
  unfolding allowed_conditions_rows
  by (auto simp: image_iff) fastforce

lemma length_filter_neq:
  "distinct xs \<Longrightarrow> x \<in> set xs \<Longrightarrow> length (filter (\<lambda>y. x \<noteq> y) xs) = length xs - 1"
proof (induction xs)
  case Nil
  then show ?case by simp
next
  case (Cons a xs)
  show ?case
  proof (cases "x = a")
    case True
    with Cons.prems have "filter (\<lambda>y. x \<noteq> y) xs = xs" by (auto simp: filter_id_conv)
    with True show ?thesis by simp
  next
    case False
    with Cons have "length (filter (\<lambda>y. x \<noteq> y) xs) = length xs - 1" "xs \<noteq> []" by auto
    with False show ?thesis by (cases xs) simp_all
  qed
qed

lemma length_allowed_conditions: "length allowed_conditions = 9900"
proof -
  have "map (\<lambda>l. length (filter (\<lambda>r. l \<noteq> r) [1..100])) [1..100] = map (\<lambda>l. 99) [1..100::int]"
    by (rule map_cong[OF refl]) (simp add: length_filter_neq)
  then have "sum_list (map (\<lambda>l. length (filter (\<lambda>r. l \<noteq> r) [1..100])) [1..100::int]) = 9900"
    by (simp only: sum_list_triv) simp
  then show ?thesis
    unfolding allowed_conditions_rows
    by (simp only: length_concat map_map comp_def length_map)
qed

lemma distinct_allowed_conditions: "distinct allowed_conditions"
proof -
  have "allowed_conditions =
          map (\<lambda>(l, r). \<lparr>dots_left = l, dots_right = r\<rparr>)
            (filter (\<lambda>(l, r). l \<noteq> r) (List.product [1..100] [1..100]))"
    unfolding allowed_conditions_rows List.product_concat_map
    by (simp add: map_concat filter_concat comp_def filter_map)
  moreover have "inj (\<lambda>(l, r). \<lparr>dots_left = l, dots_right = r\<rparr>)"
    by (auto simp: inj_on_def)
  then have "inj_on (\<lambda>(l, r). \<lparr>dots_left = l, dots_right = r\<rparr>)
               (set (filter (\<lambda>(l, r). l \<noteq> r) (List.product [1..100] [1..100])))"
    by (rule inj_on_subset) simp
  moreover have "distinct (filter (\<lambda>(l, r). l \<noteq> r) (List.product [1..100::int] [1..100::int]))"
    by (intro distinct_filter distinct_product distinct_upto)
  ultimately show ?thesis
    by (metis distinct_map)
qed

lemma design_space_example:
  "design_space \<lparr>independent_variables =
        [\<lparr>name = ''A'', allowed_values = [1, 2], value_range = None\<rparr>,
         \<lparr>name = ''B'', allowed_values = [1, 2], value_range = None\<rparr>],
      dependent_variables = []\<rparr> = [\<lparr>dots_left = 1, dots_right = 2\<rparr>, \<lparr>dots_left = 2, dots_right = 1\<rparr>]"
  by (simp add: design_space_def)

section \<open>The laboratory run\<close>

text \<open>The workflow on the laboratory collaborators, stage by stage.\<close>

lemmas stage_defs = initialize_state_def runner_on_state_def theorist_on_state_def
  experimentalist_on_state_def on_state_def add_delta_def Delta_def StandardState_def
  runner_def theorist_def experimentalist_stage_def existing_conditions_def
  fit_cycle_def cycle_def fitted_def models_to_compare_def py_index_def
  num_conditions_per_cycle_def num_trials_def num_cycles_def observed_def

lemmas parser_defs = trial_list_to_experiment_data_def record_trial_def DataFrame_def
  number_of_oobs_def py_eq_def py_str_def fixation_def answered_def unanswered_def

lemma lab_workflow_0:
  "workflow lab 0 =
     Inr \<lparr>variables = study_variables,
          conditions = Some [\<lparr>dots_left = 3, dots_right = 7\<rparr>, \<lparr>dots_left = 12, dots_right = 5\<rparr>],
          experiment_data = None, models = []\<rparr>"
  by (simp add: stage_defs lab_def)

lemma lab_fitted_0_value:
  "fitted lab 0 =
     Inr \<lparr>variables = study_variables,
          conditions = Some [\<lparr>dots_left = 3, dots_right = 7\<rparr>, \<lparr>dots_left = 12, dots_right = 5\<rparr>],
          experiment_data = Some [\<lparr>dots_left = 3, dots_right = 7, accuracy = 1\<rparr>,
                                  \<lparr>dots_left = 12, dots_right = 5, accuracy = 1\<rparr>],
          models = [(''nuts'', 0), (''bms'', 0), (''lr'', 0)]\<rparr>"
  unfolding fitted_def lab_workflow_0
  by (simp add: stage_defs parser_defs lab_def)

lemma lab_workflow_1_value:
  "workflow lab (Suc 0) =
     Inr \<lparr>variables = study_variables,
          conditions = Some [\<lparr>dots_left = 3, dots_right = 7\<rparr>, \<lparr>dots_left = 40, dots_right = 41\<rparr>],
          experiment_data = Some [\<lparr>dots_left = 3, dots_right = 7, accuracy = 1\<rparr>,
                                  \<lparr>dots_left = 12, dots_right = 5, accuracy = 1\<rparr>],
          models = [(''nuts'', 0), (''bms'', 0), (''lr'', 0)]\<rparr>"
proof -
  have "workflow lab (Suc 0) = (case fitted lab 0 of Inl e \<Rightarrow> Inl e | Inr s2 \<Rightarrow>
         (case models_to_compare (models s2) of
            Inl e \<Rightarrow> Inl e
          | Inr ms \<Rightarrow> experimentalist_on_state lab 0 allowed_conditions ms num_conditions_per_cycle s2))"
    by (simp add: fitted_def cycle_def split: sum.splits)
  then show ?thesis unfolding lab_fitted_0_value
    by (simp add: stage_defs lab_def condition.truncate_def)
qed

lemma lab_fitted_1_value:
  "fitted lab (Suc 0) =
     Inr \<lparr>variables = study_variables,
          conditions = Some [\<lparr>dots_left = 3, dots_right = 7\<rparr>, \<lparr>dots_left = 40, dots_right = 41\<rparr>],
          experiment_data = Some [\<lparr>dots_left = 3, dots_right = 7, accuracy = 1\<rparr>,
                                  \<lparr>dots_left = 12, dots_right = 5, accuracy = 1\<rparr>,
                                  \<lparr>dots_left = 3, dots_right = 7, accuracy = 1\<rparr>,
                                  \<lparr>dots_left = 40, dots_right = 41, accuracy = 1\<rparr>],
          models = [(''nuts'', 0), (''bms'', 0), (''lr'', 0), (''nuts'', Suc 0), (''bms'', Suc 0), (''lr'', Suc 0)]\<rparr>"
  unfolding fitted_def lab_workflow_1_value
  by (simp add: stage_defs parser_defs lab_def)

lemma silent_workflow_0:
  "workflow silent_lab 0 =
     Inr \<lparr>variables = study_variables,
          conditions = Some [\<lparr>dots_left = 3, dots_right = 7\<rparr>, \<lparr>dots_left = 12, dots_right = 5\<rparr>],
          experiment_data = None, models = []\<rparr>"
  by (simp add: stage_defs lab_def silent_lab_def)

lemma silent_fitted_0:
  "fitted silent_lab 0 =
     Inr \<lparr>variables = study_variables,
          conditions = Some [\<lparr>dots_left = 3, dots_right = 7\<rparr>, \<lparr>dots_left = 12, dots_right = 5\<rparr>],
          experiment_data = Some [], models = []\<rparr>"
  unfolding fitted_def silent_workflow_0
  by (simp add: stage_defs parser_defs lab_def silent_lab_def)

lemma silent_main: "main silent_lab = Inl IndexError"
proof -
  have "workflow silent_lab (Suc 0) = (case fitted silent_lab 0 of Inl e \<Rightarrow> Inl e | Inr s2 \<Rightarrow>
         (case models_to_compare (models s2) of
            Inl e \<Rightarrow> Inl e
          | Inr ms \<Rightarrow> experimentalist_on_state silent_lab 0 allowed_conditions ms num_conditions_per_cycle s2))"
    by (simp add: fitted_def cycle_def split: sum.splits)
  then have "workflow silent_lab (Suc 0) = Inl IndexError"
    unfolding silent_fitted_0 by (simp add: models_to_compare_def py_index_def)
  then show ?thesis by (simp add: main_def num_cycles_def numeral_2_eq_2)
qed

lemma lab_fitted_0: "fitted lab 0 = Inr lab_fitted"
  unfolding lab_fitted_0_value by (simp add: lab_fitted_def)

lemma lab_workflow_1: "workflow lab (Suc 0) = Inr lab_selected"
  unfolding lab_workflow_1_value by (simp add: lab_selected_def lab_fitted_def)

lemma lab_fitted_1: "fitted lab (Suc 0) = Inr lab_refitted"
  unfolding lab_fitted_1_value by (simp add: lab_refitted_def lab_selected_def lab_fitted_def)

lemma lab_workflow_2: "workflow lab (Suc (Suc 0)) = Inr lab_refitted"
proof -
  have "workflow lab (Suc (Suc 0)) = (case fitted lab (Suc 0) of Inl e \<Rightarrow> Inl e | Inr s2 \<Rightarrow>
         (case models_to_compare (models s2) of
            Inl e \<Rightarrow> Inl e
          | Inr ms \<Rightarrow> experimentalist_on_state lab (Suc 0) allowed_conditions ms num_conditions_per_cycle s2))"
    unfolding fitted_def workflow.simps(2)[of lab "Suc 0"] cycle_def
    by (simp split: sum.splits)
  then show ?thesis unfolding lab_fitted_1
    by (simp add: stage_defs lab_def condition.truncate_def lab_refitted_def lab_selected_def lab_fitted_def)
qed

section \<open>Model history\<close>

text \<open>
  Claim C1. In a run in which every fit stage sees a non-empty observation table,
  the model history after the \<open>n + 1\<close>-th fit stage has \<open>(n + 1) * 3\<close> entries,
  and its last three entries are what the Nuts, the BMS and the logistic-regression
  fitter returned in that stage, in this order. The history after every earlier fit
  stage has three entries per stage as well and is a prefix of the later one, so no
  entry is reordered or removed. It is enough to assume that the last fit stage sees a
  non-empty table: since the earlier cycles have completed, the earlier fit stages
  have seen a non-empty table too.
\<close>

theorem model_history_cardinality:
  assumes f: "fitted c n = Inr s" and ne: "observed s \<noteq> []"
  shows "length (models s) = (n + 1) * 3
       \<and> map Inr (drop (n * 3) (models s)) =
           [fit_nuts c n (map condition.truncate (observed s)) (map accuracy (observed s)),
            fit_bms c n (map condition.truncate (observed s)) (map accuracy (observed s)),
            fit_lr c n (map condition.truncate (observed s)) (map accuracy (observed s))]
       \<and> (\<forall>m s'. m \<le> n \<longrightarrow> fitted c m = Inr s' \<longrightarrow>
             observed s' \<noteq> [] \<and> length (models s') = (m + 1) * 3 \<and> prefix (models s') (models s))"
proof -
  have one: "length (models s') = (m + 1) * 3
       \<and> map Inr (drop (m * 3) (models s')) =
           [fit_nuts c m (map condition.truncate (observed s')) (map accuracy (observed s')),
            fit_bms c m (map condition.truncate (observed s')) (map accuracy (observed s')),
            fit_lr c m (map condition.truncate (observed s')) (map accuracy (observed s'))]"
    if f': "fitted c m = Inr s'" and ne': "observed s' \<noteq> []" for m s'
  proof -
    from f' obtain s0 where w: "workflow c m = Inr s0" and fc: "fit_cycle c m s0 = Inr s'"
      by (rule fitted_split)
    from workflow_invariant[OF w] have len: "length (models s0) = m * 3" by simp
    from fc show ?thesis
    proof (cases rule: fit_cycle_cases)
      case noop
      with ne' show ?thesis by simp
    next
      case (fit a b l)
      with len show ?thesis by simp
    qed
  qed
  have "observed s' \<noteq> [] \<and> length (models s') = (m + 1) * 3 \<and> prefix (models s') (models s)"
    if le: "m \<le> n" and f': "fitted c m = Inr s'" for m s'
  proof -
    have ne': "observed s' \<noteq> []"
    proof (cases "m = n")
      case True
      with f f' ne show ?thesis by simp
    next
      case False
      with le have "m < n" by simp
      from fitted_earlier_observed[OF f f' this] show ?thesis .
    qed
    with one[OF f' ne'] fitted_earlier[OF f f' le] show ?thesis by simp
  qed
  with one[OF f ne] show ?thesis by blast
qed

theorem model_history_cardinality_witness:
  "fitted lab (Suc 0) = Inr lab_refitted \<and> observed lab_refitted \<noteq> []
   \<and> length (models lab_refitted) = 6
   \<and> drop 3 (models lab_refitted) = [(''nuts'', 1), (''bms'', 1), (''lr'', 1)]
   \<and> fitted lab 0 = Inr lab_fitted
   \<and> prefix (models lab_fitted) (models lab_refitted)"
proof -
  have ne: "observed lab_refitted \<noteq> []"
    by (simp add: observed_def lab_refitted_def)
  note history = model_history_cardinality[OF lab_fitted_1 ne]
  from history have len: "length (models lab_refitted) = (Suc 0 + 1) * 3"
    by (rule conjunct1)
  from history[THEN conjunct2, THEN conjunct2, rule_format, of 0 lab_fitted] lab_fitted_0
  have "prefix (models lab_fitted) (models lab_refitted)" by simp
  with len lab_fitted_0 lab_fitted_1 ne show ?thesis
    by (simp add: lab_refitted_def)
qed




section \<open>Condition pool\<close>

text \<open>
  Claim C3 does not hold as stated. The sampler of the laboratory returns two rows of
  the design space, as many as asked for; the first of them, (3, 7), has already been
  observed, and the selection stage puts it into the condition pool.
\<close>

theorem selection_keeps_observed_condition:
  "experimentalist_on_state lab 0 allowed_conditions [(''lr'', 0), (''bms'', 0), (''nuts'', 0)]
       num_conditions_per_cycle lab_fitted = Inr lab_selected
   \<and> conditions lab_selected = Some [\<lparr>dots_left = 3, dots_right = 7\<rparr>, \<lparr>dots_left = 40, dots_right = 41\<rparr>]
   \<and> observed lab_fitted = [\<lparr>dots_left = 3, dots_right = 7, accuracy = 1\<rparr>,
                             \<lparr>dots_left = 12, dots_right = 5, accuracy = 1\<rparr>]
   \<and> \<lparr>dots_left = 3, dots_right = 7\<rparr> \<in> set allowed_conditions
   \<and> \<lparr>dots_left = 40, dots_right = 41\<rparr> \<in> set allowed_conditions"
  by (simp add: stage_defs lab_def condition.truncate_def lab_selected_def lab_fitted_def
      set_allowed_conditions)

text \<open>
  Claim C3, amended. On a container with a non-empty observation table the selection
  stage calls the sampler with the design space and, as the existing (reference)
  conditions, the independent-variable combinations of the observation table, each
  once and in the order of first occurrence. The condition pool is what this call
  returns. So no row of the pool has an observed combination if the sampler never
  returns a row of the existing conditions it is given; the stage itself removes
  nothing.
\<close>

theorem selection_hands_observed_to_sampler:
  assumes sel: "experimentalist_on_state c i allowed ms k s = Inr s'" and ne: "observed s \<noteq> []"
  shows "\<exists>pool. conditions s' = Some pool
           \<and> (case experimentalist c of
                 NutsSample nuts_sample \<Rightarrow>
                   nuts_sample i allowed (drop_duplicates (map condition.truncate (observed s))) k
                     (map name (independent_variables (variables s)))
               | FallbackSample fallback_sample \<Rightarrow>
                   fallback_sample i allowed ms (drop_duplicates (map condition.truncate (observed s))) k)
               = Inr pool
           \<and> set (drop_duplicates (map condition.truncate (observed s))) = condition.truncate ` set (observed s)
           \<and> distinct (drop_duplicates (map condition.truncate (observed s)))
           \<and> (avoids_existing (experimentalist c) \<longrightarrow>
                 set pool \<inter> condition.truncate ` set (observed s) = {})"
proof -
  let ?existing = "drop_duplicates (map condition.truncate (observed s))"
  from ne have ex: "existing_conditions (experiment_data s) = ?existing"
    by (auto simp: existing_conditions_def observed_def split: option.splits)
  from ne have nonempty: "?existing \<noteq> []"
    by (cases "observed s") simp_all
  have st: "set ?existing = condition.truncate ` set (observed s)"
    by (simp add: set_drop_duplicates)
  from experimentalist_on_state_replaces[OF sel] ex obtain pool where
    pick: "pick_conditions (experimentalist c) i allowed ?existing
             (map name (independent_variables (variables s))) ms k = Inr pool"
    and pool: "conditions s' = Some pool" by auto
  have call: "(case experimentalist c of
                 NutsSample nuts_sample \<Rightarrow>
                   nuts_sample i allowed ?existing k (map name (independent_variables (variables s)))
               | FallbackSample fallback_sample \<Rightarrow> fallback_sample i allowed ms ?existing k)
               = Inr pool"
    using pick nonempty by (cases "experimentalist c") simp_all
  have "set pool \<inter> condition.truncate ` set (observed s) = {}" if "avoids_existing (experimentalist c)"
  proof (cases "experimentalist c")
    case (NutsSample nuts_sample)
    with that call have "set pool \<inter> set ?existing = {}" by simp
    with st show ?thesis by simp
  next
    case (FallbackSample fallback_sample)
    with that call have "set pool \<inter> set ?existing = {}" by simp
    with st show ?thesis by simp
  qed
  with pool call st distinct_drop_duplicates[of "map condition.truncate (observed s)"]
  show ?thesis by blast
qed

theorem selection_hands_observed_to_sampler_witness:
  "experimentalist_on_state careful_lab 0 allowed_conditions [] 2 lab_fitted =
     Inr (lab_fitted\<lparr>conditions := Some [\<lparr>dots_left = 40, dots_right = 41\<rparr>, \<lparr>dots_left = 9, dots_right = 2\<rparr>]\<rparr>)
   \<and> experimentalist_on_state careful_nuts_lab 0 allowed_conditions [] 2 lab_fitted =
     Inr (lab_fitted\<lparr>conditions := Some [\<lparr>dots_left = 40, dots_right = 41\<rparr>, \<lparr>dots_left = 9, dots_right = 2\<rparr>]\<rparr>)
   \<and> observed lab_fitted \<noteq> []
   \<and> drop_duplicates (map condition.truncate (observed lab_fitted)) =
       [\<lparr>dots_left = 3, dots_right = 7\<rparr>, \<lparr>dots_left = 12, dots_right = 5\<rparr>]
   \<and> set [\<lparr>dots_left = 40, dots_right = 41\<rparr>, \<lparr>dots_left = 9, dots_right = 2\<rparr>]
       \<inter> condition.truncate ` set (observed lab_fitted) = {}"
proof -
  let ?new = "[\<lparr>dots_left = 40, dots_right = 41\<rparr>, \<lparr>dots_left = 9, dots_right = 2\<rparr>]"
  have sel: "experimentalist_on_state careful_lab 0 allowed_conditions [] 2 lab_fitted =
     Inr (lab_fitted\<lparr>conditions := Some ?new\<rparr>)"
    by (simp add: stage_defs careful_lab_def lab_def condition.truncate_def lab_fitted_def)
  have sel_nuts: "experimentalist_on_state careful_nuts_lab 0 allowed_conditions [] 2 lab_fitted =
     Inr (lab_fitted\<lparr>conditions := Some ?new\<rparr>)"
    by (simp add: stage_defs careful_nuts_lab_def lab_def condition.truncate_def lab_fitted_def)
  have ne: "observed lab_fitted \<noteq> []"
    by (simp add: observed_def lab_fitted_def)
  have ex: "drop_duplicates (map condition.truncate (observed lab_fitted)) =
       [\<lparr>dots_left = 3, dots_right = 7\<rparr>, \<lparr>dots_left = 12, dots_right = 5\<rparr>]"
    by (simp add: observed_def lab_fitted_def condition.truncate_def)
  have av: "avoids_existing (experimentalist careful_lab)"
    by (auto simp: careful_lab_def dest!: in_set_takeD)
  have av_nuts: "avoids_existing (experimentalist careful_nuts_lab)"
    by (auto simp: careful_nuts_lab_def dest!: in_set_takeD)
  from selection_hands_observed_to_sampler[OF sel ne] av
  have "set ?new \<inter> condition.truncate ` set (observed lab_fitted) = {}" by auto
  moreover from selection_hands_observed_to_sampler[OF sel_nuts ne] av_nuts
  have "set ?new \<inter> condition.truncate ` set (observed lab_fitted) = {}" by auto
  ultimately show ?thesis using sel sel_nuts ne ex by blast
qed



section \<open>Observation table\<close>

text \<open>
  Claim C4. The observation table after cycle \<open>i + 1\<close> is at least as long as the
  table after cycle \<open>i\<close>, and its first rows are the rows of the earlier table,
  unchanged.
\<close>

theorem observation_table_append_only:
  assumes "workflow c i = Inr s" and "workflow c (Suc i) = Inr s'"
  shows "length (observed s) \<le> length (observed s')
       \<and> take (length (observed s)) (observed s') = observed s"
proof -
  from assms have cy: "cycle c i s = Inr s'" by simp
  then obtain s2 where f: "fit_cycle c i s = Inr s2" and eq: "observed s' = observed s2"
    by (rule cycle_split)
  from fit_cycle_observed[OF f] eq have "prefix (observed s) (observed s')" by simp
  then show ?thesis by (auto simp: prefix_def)
qed

theorem observation_table_append_only_witness:
  "workflow lab (Suc 0) = Inr lab_selected \<and> workflow lab (Suc (Suc 0)) = Inr lab_refitted
   \<and> length (observed lab_selected) = 2 \<and> length (observed lab_refitted) = 4
   \<and> take 2 (observed lab_refitted) = observed lab_selected"
proof -
  have len: "length (observed lab_selected) = 2" "length (observed lab_refitted) = 4"
    by (simp_all add: observed_def lab_refitted_def lab_selected_def lab_fitted_def)
  from observation_table_append_only[OF lab_workflow_1 lab_workflow_2] len
  have "take 2 (observed lab_refitted) = observed lab_selected" by simp
  with len lab_workflow_1 lab_workflow_2 show ?thesis by blast
qed

text \<open>
  Claim C7 fails on the run of the silent laboratory. Two conditions are sent, one
  result comes back, and no trial of it was answered, so the parser produces no row.
  The fit stage leaves the empty model history as it is, and the run raises
  IndexError at line 205, where the scheduler reads the last model; the claim has the
  run finish with an observation table of length 0.
\<close>

theorem under_delivery_to_no_rows_raises:
  "experiment_runner silent_lab 0
       (zip [\<lparr>dots_left = 3, dots_right = 7\<rparr>, \<lparr>dots_left = 12, dots_right = 5\<rparr>] [''js'', ''js'']) =
     Inr [Blob [fixation, unanswered 3 7]]
   \<and> trial_list_to_experiment_data (int_of_str silent_lab) [fixation, unanswered 3 7] = Inr []
   \<and> map_sum id (\<lambda>s. (experiment_data s, models s)) (fitted silent_lab 0) = Inr (Some [], [])
   \<and> main silent_lab = Inl IndexError"
  by (simp add: silent_fitted_0 silent_main)
    (simp add: silent_lab_def lab_def parser_defs)

section \<open>Fit stage on an empty table\<close>

text \<open>
  Claim C6. On a container whose observation table is unset or empty the fit stage
  returns the empty delta and does not raise; the container it returns is the
  container it was given, with the same model history.
\<close>

theorem fit_on_empty_is_noop:
  assumes "experiment_data s = None \<or> experiment_data s = Some []"
  shows "theorist c i (experiment_data s) (variables s) = Inr Delta
       \<and> theorist_on_state c i s = Inr s"
proof -
  from assms have "theorist c i (experiment_data s) (variables s) = Inr Delta"
    by (simp add: theorist_def)
  then show ?thesis
    by (simp add: theorist_on_state_def on_state_def add_delta_Delta)
qed

theorem fit_on_empty_is_noop_witness:
  "experiment_data (StandardState study_variables :: (string \<times> nat) state) = None
   \<and> theorist lab 0 None study_variables = Inr Delta
   \<and> theorist_on_state lab 0 (StandardState study_variables) = Inr (StandardState study_variables)"
proof -
  have h: "experiment_data (StandardState study_variables :: (string \<times> nat) state) = None"
    by (simp add: StandardState_def)
  from fit_on_empty_is_noop[of "StandardState study_variables :: (string \<times> nat) state" lab 0] h
  show ?thesis by (simp add: StandardState_def)
qed

section \<open>Result parser\<close>

text \<open>
  Claim C8 does not hold for every trial list. On an answered trial of the measured
  type that has no \<open>number_of_oobs\<close> entry the parser raises KeyError and returns
  no table.
\<close>

theorem parser_raises_on_unreadable_trial:
  "trial_list_to_experiment_data decimal
     [JObj (fmap_of_list [(py_str ''trial_type'', JStr (py_str ''rok'')),
                          (py_str ''rt'', JInt 640),
                          (py_str ''key_press'', JStr (py_str ''y''))])]
   = Inl KeyError"
  by (simp add: trial_list_to_experiment_data_def record_trial_def number_of_oobs_def
      py_eq_def py_str_def)

text \<open>
  Claim C8, amended. Whenever the parser returns a table for a trial list, the table
  has exactly one row for each trial of type \<open>rok\<close> that has an \<open>rt\<close> entry other
  than \<open>None\<close>, in the order of the trials; the row holds what \<open>int\<close> makes of the
  two dot counts of the trial, and its accuracy. All other events are left out. The
  parser does return a table when every trial of the list is readable.
\<close>

theorem parser_keeps_measured_trials:
  "((\<forall>t\<in>set ts. readable to_int t) \<longrightarrow> (\<exists>tbl. trial_list_to_experiment_data to_int ts = Inr tbl))
   \<and> (\<forall>tbl. trial_list_to_experiment_data to_int ts = Inr tbl \<longrightarrow>
         length tbl = length (filter measured_with_response ts)
         \<and> list_all2 (row_of_trial to_int) (filter measured_with_response ts) tbl)"
proof (intro conjI impI allI)
  assume "\<forall>t\<in>set ts. readable to_int t"
  from parser_readable[OF this] show "\<exists>tbl. trial_list_to_experiment_data to_int ts = Inr tbl"
    by blast
next
  fix tbl assume "trial_list_to_experiment_data to_int ts = Inr tbl"
  from parser_Inr_readable[OF this] have r: "\<forall>t\<in>set ts. readable to_int t"
    and tbl: "tbl = map (row_of to_int) (filter measured_with_response ts)" by simp_all
  from tbl show "length tbl = length (filter measured_with_response ts)" by simp
  show "list_all2 (row_of_trial to_int) (filter measured_with_response ts) tbl"
    unfolding tbl list_all2_map2
    by (rule list_all2_same[THEN iffD2]) (use r row_of_kept in auto)
qed

theorem parser_keeps_measured_trials_witness:
  "trial_list_to_experiment_data decimal
     [fixation, answered 3 7 ''n'', unanswered 12 5,
      JObj (fmap_of_list [(py_str ''trial_type'', JStr (py_str ''rok'')),
                          (py_str ''rt'', JFloat 412.5),
                          (py_str ''number_of_oobs'', JArr [JStr (py_str ''4''), JStr (py_str ''4'')]),
                          (py_str ''key_press'', JStr (py_str ''y''))])] =
     Inr [\<lparr>dots_left = 3, dots_right = 7, accuracy = 1\<rparr>, \<lparr>dots_left = 4, dots_right = 4, accuracy = 1\<rparr>]"
proof -
  let ?quoted = "JObj (fmap_of_list [(py_str ''trial_type'', JStr (py_str ''rok'')),
                          (py_str ''rt'', JFloat 412.5),
                          (py_str ''number_of_oobs'', JArr [JStr (py_str ''4''), JStr (py_str ''4'')]),
                          (py_str ''key_press'', JStr (py_str ''y''))])"
  let ?ts = "[fixation, answered 3 7 ''n'', unanswered 12 5, ?quoted]"
  note defs = measured_with_response_def dot_counts_def number_of_oobs_def py_index_def
    py_str_def decimal_def fixation_def answered_def unanswered_def
  have r: "\<forall>t\<in>set ?ts. readable decimal t"
    by (simp add: readable_def defs)
  have f: "filter measured_with_response ?ts = [answered 3 7 ''n'', ?quoted]"
    by (simp add: defs)
  note kept = parser_keeps_measured_trials[of ?ts decimal]
  from kept r obtain tbl where t: "trial_list_to_experiment_data decimal ?ts = Inr tbl"
    by blast
  with kept have l: "list_all2 (row_of_trial decimal) (filter measured_with_response ?ts) tbl"
    by blast
  from l obtain a b where tbl: "tbl = [a, b]"
    unfolding f by (auto simp: list_all2_Cons1)
  from l have "a = \<lparr>dots_left = 3, dots_right = 7, accuracy = 1\<rparr>"
    "b = \<lparr>dots_left = 4, dots_right = 4, accuracy = 1\<rparr>"
    unfolding f tbl by (simp_all add: row_of_trial_def label_def py_eq_def defs)
  with t tbl show ?thesis by simp
qed

text \<open>
  Claim C10. In the table that the parser returns, the accuracy of the row of a kept
  trial is 1 if the two dot counts of the trial are equal and the key is \<open>y\<close>, or
  they are unequal and the key is \<open>n\<close>, and 0 otherwise. Every accuracy in the
  table is 0 or 1 and lies in the declared range of the dependent variable.
\<close>

theorem accuracy_is_zero_or_one:
  assumes "trial_list_to_experiment_data to_int ts = Inr tbl"
  shows "list_all2 (\<lambda>t row. case dot_counts t of
                               None \<Rightarrow> False
                             | Some (dl, dr) \<Rightarrow>
                                 (case getitem t (py_str ''key_press'') of
                                    Inl e \<Rightarrow> False
                                  | Inr key \<Rightarrow> accuracy row = label dl dr key))
           (filter measured_with_response ts) tbl
       \<and> (\<forall>row\<in>set tbl. (accuracy row = 0 \<or> accuracy row = 1)
             \<and> list_all (\<lambda>v. in_value_range v (accuracy row)) (dependent_variables study_variables))"
proof -
  from parser_Inr_readable[OF assms] have r: "\<forall>t\<in>set ts. readable to_int t"
    and tbl: "tbl = map (row_of to_int) (filter measured_with_response ts)" by simp_all
  have "list_all2 (\<lambda>t row. case dot_counts t of
                               None \<Rightarrow> False
                             | Some (dl, dr) \<Rightarrow>
                                 (case getitem t (py_str ''key_press'') of
                                    Inl e \<Rightarrow> False
                                  | Inr key \<Rightarrow> accuracy row = label dl dr key))
           (filter measured_with_response ts) (map (row_of to_int) (filter measured_with_response ts))"
    unfolding list_all2_map2
  proof (rule list_all2_same[THEN iffD2], rule ballI)
    fix t assume "t \<in> set (filter measured_with_response ts)"
    with r have "readable to_int t" "measured_with_response t" by simp_all
    from row_of_kept[OF this] show "case dot_counts t of
                               None \<Rightarrow> False
                             | Some (dl, dr) \<Rightarrow>
                                 (case getitem t (py_str ''key_press'') of
                                    Inl e \<Rightarrow> False
                                  | Inr key \<Rightarrow> accuracy (row_of to_int t) = label dl dr key)"
      by (auto simp: row_of_trial_def split: option.splits sum.splits)
  qed
  moreover have "\<forall>row\<in>set tbl. (accuracy row = 0 \<or> accuracy row = 1)
             \<and> list_all (\<lambda>v. in_value_range v (accuracy row)) (dependent_variables study_variables)"
  proof
    fix row assume "row \<in> set tbl"
    then obtain t where "row = row_of to_int t" unfolding tbl by auto
    with accuracy_row_of[of to_int t] show "(accuracy row = 0 \<or> accuracy row = 1)
             \<and> list_all (\<lambda>v. in_value_range v (accuracy row)) (dependent_variables study_variables)"
      by (auto simp: study_variables_def in_value_range_def)
  qed
  ultimately show ?thesis unfolding tbl by blast
qed

theorem accuracy_is_zero_or_one_witness:
  "trial_list_to_experiment_data decimal
     [answered 4 4 ''y'', answered 4 4 ''n'', answered 3 7 ''n'', answered 3 7 ''y''] =
     Inr [\<lparr>dots_left = 4, dots_right = 4, accuracy = 1\<rparr>, \<lparr>dots_left = 4, dots_right = 4, accuracy = 0\<rparr>,
          \<lparr>dots_left = 3, dots_right = 7, accuracy = 1\<rparr>, \<lparr>dots_left = 3, dots_right = 7, accuracy = 0\<rparr>]
   \<and> label (JInt 4) (JInt 4) (JStr (py_str ''y'')) = 1 \<and> label (JInt 4) (JInt 4) (JStr (py_str ''n'')) = 0
   \<and> label (JInt 3) (JInt 7) (JStr (py_str ''n'')) = 1 \<and> label (JInt 3) (JInt 7) (JStr (py_str ''y'')) = 0
   \<and> in_value_range \<lparr>name = ''accuracy'', allowed_values = [], value_range = Some (0, 1)\<rparr> 1
   \<and> in_value_range \<lparr>name = ''accuracy'', allowed_values = [], value_range = Some (0, 1)\<rparr> 0"
proof -
  let ?ts = "[answered 4 4 ''y'', answered 4 4 ''n'', answered 3 7 ''n'', answered 3 7 ''y'']"
  let ?tbl = "[\<lparr>dots_left = 4, dots_right = 4, accuracy = 1\<rparr>, \<lparr>dots_left = 4, dots_right = 4, accuracy = 0\<rparr>,
          \<lparr>dots_left = 3, dots_right = 7, accuracy = 1\<rparr>, \<lparr>dots_left = 3, dots_right = 7, accuracy = 0\<rparr>]"
  have p: "trial_list_to_experiment_data decimal ?ts = Inr ?tbl"
    by (simp add: parser_defs py_index_def)
  have f: "filter measured_with_response ?ts = ?ts"
    by (simp add: measured_with_response_def answered_def py_str_def)
  from accuracy_is_zero_or_one[OF p] show ?thesis
    unfolding f using p
    by (simp add: answered_def study_variables_def dot_counts_def number_of_oobs_def py_index_def py_str_def)
qed

section \<open>Design space table\<close>

text \<open>
  Claim C9. For two variables with the allowed values 1 and 2 each, the design space
  has exactly the rows (1, 2) and (2, 1). For any two variables it is the cross-product
  of their allowed values, the first variable varying slowest, without the rows in
  which the two values are equal. The design space of the program is the grid of the
  whole numbers 1 to 100 without its diagonal: 9900 rows, no row twice.
\<close>

theorem design_space_is_filtered_grid:
  "design_space \<lparr>independent_variables =
        [\<lparr>name = ''A'', allowed_values = [1, 2], value_range = None\<rparr>,
         \<lparr>name = ''B'', allowed_values = [1, 2], value_range = None\<rparr>],
      dependent_variables = []\<rparr> = [\<lparr>dots_left = 1, dots_right = 2\<rparr>, \<lparr>dots_left = 2, dots_right = 1\<rparr>]
   \<and> (\<forall>vs as bs. map allowed_values (independent_variables vs) = [as, bs] \<longrightarrow>
         design_space vs =
           concat (map (\<lambda>l. map (\<lambda>r. \<lparr>dots_left = l, dots_right = r\<rparr>) (filter (\<lambda>r. l \<noteq> r) bs)) as))
   \<and> allowed_conditions =
       concat (map (\<lambda>l. map (\<lambda>r. \<lparr>dots_left = l, dots_right = r\<rparr>) (filter (\<lambda>r. l \<noteq> r) [1..100])) [1..100])
   \<and> set allowed_conditions =
       {c. 1 \<le> dots_left c \<and> dots_left c \<le> 100 \<and> 1 \<le> dots_right c \<and> dots_right c \<le> 100
           \<and> dots_left c \<noteq> dots_right c}
   \<and> length allowed_conditions = 9900
   \<and> distinct allowed_conditions"
  using design_space_two allowed_conditions_rows set_allowed_conditions length_allowed_conditions
    distinct_allowed_conditions
  by (simp add: design_space_def)

theorem design_space_is_filtered_grid_witness:
  "map allowed_values (independent_variables study_variables) = [[1..100], [1..100]]
   \<and> design_space study_variables =
       concat (map (\<lambda>l. map (\<lambda>r. \<lparr>dots_left = l, dots_right = r\<rparr>) (filter (\<lambda>r. l \<noteq> r) [1..100])) [1..100])
   \<and> \<lparr>dots_left = 3, dots_right = 7\<rparr> \<in> set allowed_conditions
   \<and> \<lparr>dots_left = 7, dots_right = 7\<rparr> \<notin> set allowed_conditions"
proof -
  have h: "map allowed_values (independent_variables study_variables) = [[1..100], [1..100]]"
    by (simp add: study_variables_def)
  note grid = design_space_is_filtered_grid
  have g: "\<forall>vs as bs. map allowed_values (independent_variables vs) = [as, bs] \<longrightarrow>
         design_space vs =
           concat (map (\<lambda>l. map (\<lambda>r. \<lparr>dots_left = l, dots_right = r\<rparr>) (filter (\<lambda>r. l \<noteq> r) bs)) as)"
    by (rule grid[THEN conjunct2, THEN conjunct1])
  have s: "set allowed_conditions =
       {c. 1 \<le> dots_left c \<and> dots_left c \<le> 100 \<and> 1 \<le> dots_right c \<and> dots_right c \<le> 100
           \<and> dots_left c \<noteq> dots_right c}"
    by (rule grid[THEN conjunct2, THEN conjunct2, THEN conjunct2, THEN conjunct1])
  from g[rule_format, OF h] h s show ?thesis by simp
qed

end
